theory Spec2Isabelle
  imports Complex_Main "HOL-Library.Char_ord" "HOL-Library.List_Lexorder" "HOL-Library.Multiset"
begin

section \<open>Python values used by converter.py\<close>

text \<open>
  The exceptions the modelled code can raise, and how a call of one of the converter
  functions ends: it falls off its end (\<open>Finished\<close>, Python's \<open>None\<close>), it prints an
  error and executes \<open>return 1\<close>, or an exception escapes.
\<close>

datatype exn = KeyError | ValueError | IndexError | TypeError | AttributeError
  | FileNotFoundError | SameFileError

datatype outcome = Finished | Returned1 | Raised exn

subsection \<open>Strings\<close>

text \<open>\<open>s.split(c)\<close> for a separator of one character: never an empty list.\<close>

fun split_char :: "char \<Rightarrow> string \<Rightarrow> string list" where
  "split_char c [] = [[]]"
| "split_char c (x # xs) =
     (if x = c then [] # split_char c xs
      else (case split_char c xs of
              [] \<Rightarrow> [[x]]
            | w # ws \<Rightarrow> (x # w) # ws))"

text \<open>\<open>s.split(c)[-1]\<close>: the text after the last \<open>c\<close>, all of \<open>s\<close> when there is none.\<close>

definition split_last :: "char \<Rightarrow> string \<Rightarrow> string" where
  "split_last c s = last (split_char c s)"

text \<open>
  \<open>s.replace(old, new)\<close>: every non-overlapping occurrence, leftmost first. For an
  empty \<open>old\<close> Python puts \<open>new\<close> before every character and at the end.
\<close>

function replace_str :: "string \<Rightarrow> string \<Rightarrow> string \<Rightarrow> string" where
  "replace_str old new s =
     (if old = [] then new @ concat (map (\<lambda>c. c # new) s)
      else if s = [] then []
      else if take (length old) s = old then new @ replace_str old new (drop (length old) s)
      else hd s # replace_str old new (tl s))"
  by pat_completeness auto
termination
  by (relation "measure (\<lambda>(old, new, s). length s)") auto

declare replace_str.simps [simp del]

text \<open>\<open>os.path.join(a, b)\<close> of posixpath, for two arguments.\<close>

definition path_join :: "string \<Rightarrow> string \<Rightarrow> string" where
  "path_join a b =
     (if b \<noteq> [] \<and> hd b = CHR ''/'' then b
      else if a = [] \<or> last a = CHR ''/'' then a @ b
      else a @ ''/'' @ b)"

text \<open>\<open>str(n)\<close> of a non-negative Python int.\<close>

definition digit_char :: "nat \<Rightarrow> char" where
  "digit_char d = ''0123456789'' ! d"

function str_nat :: "nat \<Rightarrow> string" where
  "str_nat n = (if n < 10 then [digit_char n] else str_nat (n div 10) @ [digit_char (n mod 10)])"
  by pat_completeness auto
termination
  by (relation "measure id") auto

declare str_nat.simps [simp del]

text \<open>\<open>xs.index(x)\<close>: the first position of \<open>x\<close>; \<open>None\<close> where Python raises ValueError.\<close>

fun index_of :: "'a list \<Rightarrow> 'a \<Rightarrow> nat option" where
  "index_of [] x = None"
| "index_of (y # ys) x = (if y = x then Some 0 else map_option Suc (index_of ys x))"

text \<open>\<open>str(xs)\<close> of a list whose elements have the given \<open>repr\<close> texts.\<close>

fun comma_join :: "string list \<Rightarrow> string" where
  "comma_join [] = []"
| "comma_join [x] = x"
| "comma_join (x # y # ys) = x @ '', '' @ comma_join (y # ys)"

definition str_list :: "string list \<Rightarrow> string" where
  "str_list reprs = ''['' @ comma_join reprs @ '']''"

subsection \<open>Numbers\<close>

text \<open>
  Coordinates and image dimensions are JSON numbers. They are modelled as exact
  rationals: the model does not round. numpy's division of a float by zero gives
  \<open>inf\<close> or \<open>nan\<close> with a warning and raises nothing; these two results, which are no
  rationals, are \<open>None\<close>.
\<close>

definition np_div :: "rat \<Rightarrow> rat \<Rightarrow> rat option" where
  "np_div a b = (if b = 0 then None else Some (a / b))"

text \<open>\<open>int(x)\<close> of a number: truncation towards zero.\<close>

definition py_int :: "rat \<Rightarrow> int" where
  "py_int x = (if 0 \<le> x then \<lfloor>x\<rfloor> else \<lceil>x\<rceil>)"

text \<open>
  The result of an addition or subtraction of two int64 values in numpy: the sum or
  difference modulo \<open>2 ^ 64\<close>, read as a signed number; numpy warns and raises nothing.
\<close>

definition int64 :: "int \<Rightarrow> int" where
  "int64 n = (n + 2 ^ 63) mod 2 ^ 64 - 2 ^ 63"

section \<open>The data of the three formats\<close>

type_synonym point = "rat \<times> rat"

text \<open>A Labelme shape: the keys \<open>label\<close>, \<open>points\<close> and \<open>shape_type\<close> of one entry of \<open>shapes\<close>.\<close>

record shape =
  label :: string
  points :: "point list"
  shape_type :: string

text \<open>
  The value under \<open>imagePath\<close>, as far as the code tells values apart: a string has
  \<open>split\<close>, \<open>null\<close> and a number have not. The key itself may be missing.
\<close>

datatype jvalue = JNull | JNumber rat | JString string

text \<open>A Labelme document (format A), one per image.\<close>

record annotation =
  shapes :: "shape list"
  imagePath :: "jvalue option"
  imageWidth :: rat
  imageHeight :: rat

text \<open>A VIA region and a VIA annotation (format C); the VIA document is a dict of them.\<close>

record region =
  sa_name :: string
  all_points_x :: "rat list"
  all_points_y :: "rat list"
  ra_label :: string

record via_annotation =
  filename :: string
  regions :: "region list"
  via_size :: nat

type_synonym via_doc = "(string \<times> via_annotation) list"

text \<open>An image file on disk: what \<open>os.stat\<close> and \<open>cv2.imread\<close> report of it.\<close>

record image =
  st_size :: nat
  im_height :: nat
  im_width :: nat

text \<open>
  What a run leaves behind: the files it wrote or copied, by path, and the lines it
  printed, oldest first. The image files a run reads are a separate, read-only map
  \<open>images\<close>; a copied image is recorded by the path it was copied from.
\<close>

datatype content = Text string | ImageCopy string | ViaJson via_doc | LabelmeJson annotation

record world =
  files :: "string \<Rightarrow> content option"
  printed :: "string list"

definition empty_world :: world where
  "empty_world = \<lparr>files = (\<lambda>p. None), printed = []\<rparr>"

definition print :: "string \<Rightarrow> world \<Rightarrow> world" where
  "print msg w = w\<lparr>printed := printed w @ [msg]\<rparr>"

text \<open>\<open>open(path, "w")\<close>: the file exists and is empty afterwards.\<close>

definition open_w :: "string \<Rightarrow> world \<Rightarrow> world" where
  "open_w path w = w\<lparr>files := (files w)(path \<mapsto> Text [])\<rparr>"

text \<open>\<open>f.write(s)\<close> on a file opened for appending.\<close>

definition write_a :: "string \<Rightarrow> string \<Rightarrow> world \<Rightarrow> world" where
  "write_a path s w =
     w\<lparr>files := (files w)(path \<mapsto>
          Text ((case files w path of Some (Text old) \<Rightarrow> old | _ \<Rightarrow> []) @ s))\<rparr>"

text \<open>
  \<open>shutil.copyfile(src, dst)\<close>: SameFileError when both name the same file (here: the
  same path), FileNotFoundError when there is no source.
\<close>

definition copyfile :: "(string \<Rightarrow> image option) \<Rightarrow> string \<Rightarrow> string \<Rightarrow> world \<Rightarrow> outcome \<times> world" where
  "copyfile images src dst w =
     (if images src = None then (Raised FileNotFoundError, w)
      else if src = dst then (Raised SameFileError, w)
      else (Finished, w\<lparr>files := (files w)(dst \<mapsto> ImageCopy src)\<rparr>))"

text \<open>A \<open>for\<close> loop whose body may return or raise: the first such outcome ends the loop.\<close>

fun for_each :: "('a \<Rightarrow> world \<Rightarrow> outcome \<times> world) \<Rightarrow> 'a list \<Rightarrow> world \<Rightarrow> outcome \<times> world" where
  "for_each body [] w = (Finished, w)"
| "for_each body (x # xs) w =
     (case body x w of
        (Finished, w') \<Rightarrow> for_each body xs w'
      | (out, w') \<Rightarrow> (out, w'))"

section \<open>extract_labelme_labels\<close>

text \<open>
  Lines 14 to 47. The argument is the parsed content of the \<open>*.json\<close> files of the input
  directory, in the order \<open>glob.glob\<close> lists them. The result is the Python list
  \<open>[label_list, ids]\<close> as a pair.
\<close>

definition add_label :: "string list \<Rightarrow> shape \<Rightarrow> string list" where
  "add_label label_list sh =
     (if label sh \<notin> set label_list then label_list @ [label sh] else label_list)"

definition extract_labelme_labels :: "annotation list \<Rightarrow> string list \<times> nat list" where
  "extract_labelme_labels poly_file_list =
     (let label_list =
            foldl (\<lambda>acc poly_annotations. foldl add_label acc (shapes poly_annotations))
              [] poly_file_list;
          label_list = sort label_list
      in (label_list, [0..<length label_list]))"

section \<open>create_empty_txt_yolo\<close>

text \<open>
  Lines 50 to 71. Line 10 is \<open>import glob\<close>, so the name \<open>glob\<close> is the module. Lines
  63 and 65 call \<open>glob(...)\<close>, the module itself, where every other function of the file
  calls \<open>glob.glob(...)\<close>; calling a module raises TypeError.
\<close>

definition glob_module_call :: "string \<Rightarrow> exn + string list" where
  "glob_module_call pattern = Inl TypeError"

definition create_empty_txt_yolo :: "string \<Rightarrow> string \<Rightarrow> world \<Rightarrow> outcome \<times> world" where
  "create_empty_txt_yolo input_dir image_format w =
     (case glob_module_call (input_dir @ image_format) of
        Inl e \<Rightarrow> (Raised e, w)
      | Inr img_list \<Rightarrow>
          (case glob_module_call (input_dir @ ''*.txt'') of
             Inl e \<Rightarrow> (Raised e, w)
           | Inr txt_list \<Rightarrow>
               (Finished,
                foldl (\<lambda>w img.
                         let txt_file = replace_str image_format ''.txt'' img
                         in if txt_file \<notin> set txt_list then open_w txt_file w else w)
                  w img_list)))"

section \<open>The converters from Labelme to YOLO\<close>

text \<open>
  The block that finds the image format is the same in every converter (lines 95 to 101,
  176 to 182, 261 to 267, 345 to 351): the \<open>try\<close> fails when the key is missing or its
  value has no \<open>split\<close>; then the default stays and the warning is printed.
\<close>

definition detect_image_format :: "annotation \<Rightarrow> world \<Rightarrow> string \<times> world" where
  "detect_image_format poly_annotations w =
     (case imagePath poly_annotations of
        Some (JString p) \<Rightarrow> (''.'' @ split_last CHR ''.'' p, w)
      | _ \<Rightarrow> (''.jpg'', print ''Warning! Format detection unsuccessful'' w))"

text \<open>
  Lines 129 to 131 and 211 to 213: \<open>str\<close> of the list, then commas and brackets removed.
  How Python writes a float is not part of the repository: \<open>repr_float\<close> is a parameter.
\<close>

definition box_yolo_out :: "(rat option \<Rightarrow> string) \<Rightarrow> nat \<Rightarrow> rat option list \<Rightarrow> string" where
  "box_yolo_out repr_float shape_label_id box_yolo =
     replace_str '']'' [] (replace_str ''['' [] (replace_str '','' []
       (str_list (str_nat shape_label_id # map repr_float box_yolo))))"

definition newline :: string where
  "newline = [CHR 0x0A]"

subsection \<open>labelmerect2yolo\<close>

text \<open>
  Lines 120 to 123: width, height and centre from the first two points, in pixels.
  Indexing row 1 of an array with fewer than two rows raises IndexError.
\<close>

definition rect_extent :: "point list \<Rightarrow> exn + rat \<times> rat \<times> rat \<times> rat" where
  "rect_extent shape_points =
     (case shape_points of
        p0 # p1 # _ \<Rightarrow>
          (let box_width = fst p1 - fst p0;
               box_height = snd p0 - snd p1;
               box_center_x = fst p0 + box_width / 2;
               box_center_y = snd p1 + box_height / 2
           in Inr (box_center_x, box_center_y, box_width, box_height))
      | _ \<Rightarrow> Inl IndexError)"

text \<open>Lines 125 to 128.\<close>

definition rect_box :: "point list \<Rightarrow> rat \<times> rat \<Rightarrow> exn + rat option list" where
  "rect_box shape_points img_dims =
     (case rect_extent shape_points of
        Inl e \<Rightarrow> Inl e
      | Inr (box_center_x, box_center_y, box_width, box_height) \<Rightarrow>
          Inr [np_div box_center_x (fst img_dims),
               np_div box_center_y (snd img_dims),
               map_option abs (np_div box_width (fst img_dims)),
               map_option abs (np_div box_height (snd img_dims))])"

text \<open>
  Line 120 when every coordinate is a JSON integer within the range of int64: the array
  has dtype int64 and the difference of two of its elements is an int64 again.
\<close>

definition rect_width_int64 :: "point list \<Rightarrow> exn + int" where
  "rect_width_int64 shape_points =
     (case shape_points of
        p0 # p1 # _ \<Rightarrow> Inr (int64 \<lfloor>fst p1 - fst p0\<rfloor>)
      | _ \<Rightarrow> Inl IndexError)"

text \<open>The body of the loop over the shapes, lines 112 to 134.\<close>

definition rect_shape ::
  "(rat option \<Rightarrow> string) \<Rightarrow> string list \<Rightarrow> rat \<times> rat \<Rightarrow> string \<Rightarrow> shape \<Rightarrow> world \<Rightarrow> outcome \<times> world" where
  "rect_shape repr_float labels img_dims yolo_outfile sh w =
     (if shape_type sh \<noteq> ''rectangle''
      then (Finished, print ''Warning! The annotations contain shapes other than rectangles'' w)
      else (case index_of labels (label sh) of
              None \<Rightarrow> (Raised ValueError, w)
            | Some shape_label_id \<Rightarrow>
                (case rect_box (points sh) img_dims of
                   Inl e \<Rightarrow> (Raised e, w)
                 | Inr box_yolo \<Rightarrow>
                     (Finished,
                      write_a yolo_outfile newline
                        (write_a yolo_outfile (box_yolo_out repr_float shape_label_id box_yolo) w)))))"

text \<open>The body of the loop over the files, lines 90 to 140.\<close>

definition labelmerect2yolo_file ::
  "(rat option \<Rightarrow> string) \<Rightarrow> (string \<Rightarrow> image option) \<Rightarrow> string \<Rightarrow> string list \<times> nat list
     \<Rightarrow> string \<times> annotation \<Rightarrow> world \<Rightarrow> outcome \<times> world" where
  "labelmerect2yolo_file repr_float images output_dir label_list pf w =
     (let poly_file = fst pf;
          poly_annotations = snd pf;
          (image_format, w1) = detect_image_format poly_annotations w;
          img_dims = (imageWidth poly_annotations, imageHeight poly_annotations);
          yolo_outfile_name = replace_str ''.json'' ''.txt'' (split_last CHR ''/'' poly_file);
          w2 = open_w (output_dir @ yolo_outfile_name) w1
      in case for_each (rect_shape repr_float (fst label_list) img_dims (output_dir @ yolo_outfile_name))
                (shapes poly_annotations) w2 of
           (Finished, w3) \<Rightarrow>
             copyfile images (replace_str ''.json'' image_format poly_file)
               (output_dir @ replace_str ''.txt'' image_format yolo_outfile_name) w3
         | (out, w3) \<Rightarrow> (out, w3))"

text \<open>
  Lines 143 to 150: classes.txt. \<open>np.shape\<close> of two lists of unequal lengths has no
  second axis; the lookup of it raises (ValueError from numpy 1.24 on).
\<close>

definition write_classes :: "string \<Rightarrow> string list \<times> nat list \<Rightarrow> world \<Rightarrow> outcome \<times> world" where
  "write_classes classes_file label_list w =
     (if length (fst label_list) \<noteq> length (snd label_list)
      then (Raised ValueError, open_w classes_file w)
      else (Finished,
            foldl (\<lambda>w i. write_a classes_file newline
                            (write_a classes_file
                               (str_nat (snd label_list ! i) @ '' '' @ fst label_list ! i) w))
              (open_w classes_file w) [0..<length (fst label_list)]))"

text \<open>
  The converter. \<open>poly_file_list\<close> is what \<open>glob.glob(input_dir + "*.json")\<close> lists, each
  path with the parsed content of the file.
\<close>

definition labelmerect2yolo ::
  "(rat option \<Rightarrow> string) \<Rightarrow> (string \<Rightarrow> image option) \<Rightarrow> (string \<times> annotation) list \<Rightarrow> string
     \<Rightarrow> string list \<times> nat list \<Rightarrow> world \<Rightarrow> outcome \<times> world" where
  "labelmerect2yolo repr_float images poly_file_list output_dir label_list w =
     (case for_each (labelmerect2yolo_file repr_float images output_dir label_list) poly_file_list w of
        (Finished, w') \<Rightarrow> write_classes (output_dir @ ''classes.txt'') label_list w'
      | (out, w') \<Rightarrow> (out, w'))"

subsection \<open>labelmepoly2yolo\<close>

text \<open>Python's \<open>max\<close> and \<open>min\<close> over a column that has at least one entry.\<close>

definition max_of :: "rat list \<Rightarrow> rat" where
  "max_of xs = foldl max (hd xs) (tl xs)"

definition min_of :: "rat list \<Rightarrow> rat" where
  "min_of xs = foldl min (hd xs) (tl xs)"

text \<open>
  Lines 201 to 204, in pixels. An empty list of points makes an array of one axis, and
  taking a column of it raises IndexError.
\<close>

definition poly_extent :: "point list \<Rightarrow> exn + rat \<times> rat \<times> rat \<times> rat" where
  "poly_extent shape_points =
     (if shape_points = [] then Inl IndexError
      else (let box_width = max_of (map fst shape_points) - min_of (map fst shape_points);
                box_height = max_of (map snd shape_points) - min_of (map snd shape_points);
                box_center_x = min_of (map fst shape_points) + box_width / 2;
                box_center_y = min_of (map snd shape_points) + box_height / 2
            in Inr (box_center_x, box_center_y, box_width, box_height)))"

text \<open>Lines 206 to 209.\<close>

definition poly_box :: "point list \<Rightarrow> rat \<times> rat \<Rightarrow> exn + rat option list" where
  "poly_box shape_points img_dims =
     (case poly_extent shape_points of
        Inl e \<Rightarrow> Inl e
      | Inr (box_center_x, box_center_y, box_width, box_height) \<Rightarrow>
          Inr [np_div box_center_x (fst img_dims),
               np_div box_center_y (snd img_dims),
               np_div box_width (fst img_dims),
               np_div box_height (snd img_dims)])"


text \<open>The body of the loop over the shapes, lines 193 to 216.\<close>

definition poly_shape ::
  "(rat option \<Rightarrow> string) \<Rightarrow> string list \<Rightarrow> rat \<times> rat \<Rightarrow> string \<Rightarrow> shape \<Rightarrow> world \<Rightarrow> outcome \<times> world" where
  "poly_shape repr_float labels img_dims yolo_outfile sh w =
     (if shape_type sh \<noteq> ''polygon''
      then (Finished, print ''Warning! The annotations contain shapes other than polygons'' w)
      else (case index_of labels (label sh) of
              None \<Rightarrow> (Raised ValueError, w)
            | Some shape_label_id \<Rightarrow>
                (case poly_box (points sh) img_dims of
                   Inl e \<Rightarrow> (Raised e, w)
                 | Inr box_yolo \<Rightarrow>
                     (Finished,
                      write_a yolo_outfile newline
                        (write_a yolo_outfile (box_yolo_out repr_float shape_label_id box_yolo) w)))))"

text \<open>The body of the loop over the files, lines 171 to 222.\<close>

definition labelmepoly2yolo_file ::
  "(rat option \<Rightarrow> string) \<Rightarrow> (string \<Rightarrow> image option) \<Rightarrow> string \<Rightarrow> string list \<times> nat list
     \<Rightarrow> string \<times> annotation \<Rightarrow> world \<Rightarrow> outcome \<times> world" where
  "labelmepoly2yolo_file repr_float images output_dir label_list pf w =
     (let poly_file = fst pf;
          poly_annotations = snd pf;
          (image_format, w1) = detect_image_format poly_annotations w;
          img_dims = (imageWidth poly_annotations, imageHeight poly_annotations);
          yolo_outfile_name = replace_str ''.json'' ''.txt'' (split_last CHR ''/'' poly_file);
          w2 = open_w (output_dir @ yolo_outfile_name) w1
      in case for_each (poly_shape repr_float (fst label_list) img_dims (output_dir @ yolo_outfile_name))
                (shapes poly_annotations) w2 of
           (Finished, w3) \<Rightarrow>
             copyfile images (replace_str ''.json'' image_format poly_file)
               (output_dir @ replace_str ''.txt'' image_format yolo_outfile_name) w3
         | (out, w3) \<Rightarrow> (out, w3))"

definition labelmepoly2yolo ::
  "(rat option \<Rightarrow> string) \<Rightarrow> (string \<Rightarrow> image option) \<Rightarrow> (string \<times> annotation) list \<Rightarrow> string
     \<Rightarrow> string list \<times> nat list \<Rightarrow> world \<Rightarrow> outcome \<times> world" where
  "labelmepoly2yolo repr_float images poly_file_list output_dir label_list w =
     (case for_each (labelmepoly2yolo_file repr_float images output_dir label_list) poly_file_list w of
        (Finished, w') \<Rightarrow> write_classes (path_join output_dir ''classes.txt'') label_list w'
      | (out, w') \<Rightarrow> (out, w'))"

section \<open>labelme2via\<close>

text \<open>\<open>d[k] = v\<close> on a dict, kept in insertion order.\<close>

fun dict_set :: "'k \<Rightarrow> 'v \<Rightarrow> ('k \<times> 'v) list \<Rightarrow> ('k \<times> 'v) list" where
  "dict_set k v [] = [(k, v)]"
| "dict_set k v (p # ps) = (if fst p = k then (k, v) # ps else p # dict_set k v ps)"

text \<open>Lines 368 to 376: the region made from one polygon.\<close>

definition via_region :: "shape \<Rightarrow> region" where
  "via_region sh =
     \<lparr>sa_name = ''polygon'',
      all_points_x = map (\<lambda>point. of_int (py_int (fst point))) (points sh),
      all_points_y = map (\<lambda>point. of_int (py_int (snd point))) (points sh),
      ra_label = label sh\<rparr>"

text \<open>
  The loop over the shapes, lines 357 to 379: \<open>None\<close> when a shape is no polygon, where
  the code prints the error and returns 1 from the conversion.
\<close>

fun via_regions :: "shape list \<Rightarrow> region list option" where
  "via_regions [] = Some []"
| "via_regions (sh # rest) =
     (if shape_type sh \<noteq> ''polygon'' then None
      else map_option ((#) (via_region sh)) (via_regions rest))"

text \<open>The name of the image of an annotation file, lines 384 and 392.\<close>

definition image_name_of :: "string \<Rightarrow> string \<Rightarrow> string" where
  "image_name_of poly_file image_format =
     replace_str ''.json'' image_format (split_last CHR ''/'' poly_file)"

text \<open>
  The body of the loop over the files, lines 339 to 395, on the dict \<open>annotations\<close> and
  the world. \<open>os.stat\<close> raises FileNotFoundError when the image is not there.
\<close>

definition via_file ::
  "(string \<Rightarrow> image option) \<Rightarrow> string \<Rightarrow> string \<Rightarrow> string \<times> annotation
     \<Rightarrow> via_doc \<times> world \<Rightarrow> outcome \<times> via_doc \<times> world" where
  "via_file images input_dir output_dir pf st =
     (let poly_file = fst pf;
          poly_annotations = snd pf;
          annotations = fst st;
          (image_format, w1) = detect_image_format poly_annotations (snd st)
      in case images (replace_str ''.json'' image_format poly_file) of
           None \<Rightarrow> (Raised FileNotFoundError, annotations, w1)
         | Some im \<Rightarrow>
             (case via_regions (shapes poly_annotations) of
                None \<Rightarrow>
                  (Returned1, annotations,
                   print ''Error: shapes other than polygons not yet supported. Please modify labelme2via()'' w1)
              | Some regs \<Rightarrow>
                  (let img_size = st_size im;
                       image_name = image_name_of poly_file image_format;
                       ann = \<lparr>filename = image_name, regions = regs, via_size = img_size\<rparr>;
                       annotations = dict_set (image_name @ str_nat img_size) ann annotations;
                       (out, w2) = copyfile images (path_join input_dir image_name)
                                     (path_join output_dir image_name) w1
                   in (out, annotations, w2))))"

fun via_files ::
  "(string \<Rightarrow> image option) \<Rightarrow> string \<Rightarrow> string \<Rightarrow> (string \<times> annotation) list
     \<Rightarrow> via_doc \<times> world \<Rightarrow> outcome \<times> via_doc \<times> world" where
  "via_files images input_dir output_dir [] st = (Finished, st)"
| "via_files images input_dir output_dir (pf # rest) st =
     (case via_file images input_dir output_dir pf st of
        (Finished, st') \<Rightarrow> via_files images input_dir output_dir rest st'
      | (out, st') \<Rightarrow> (out, st'))"

text \<open>
  The conversion. \<open>poly_file_list\<close> is what \<open>glob.glob(input_dir + "*.json")\<close> lists, each
  path with the parsed content of the file. The document is written after the loop.
\<close>

definition labelme2via ::
  "(string \<Rightarrow> image option) \<Rightarrow> (string \<times> annotation) list \<Rightarrow> string \<Rightarrow> string
     \<Rightarrow> world \<Rightarrow> outcome \<times> world" where
  "labelme2via images poly_file_list input_dir output_dir w =
     (case via_files images input_dir output_dir poly_file_list ([], w) of
        (Finished, annotations, w') \<Rightarrow>
          (Finished,
           w'\<lparr>files := (files w')(path_join output_dir ''via_annotations.json'' \<mapsto> ViaJson annotations)\<rparr>)
      | (out, annotations, w') \<Rightarrow> (out, w'))"

section \<open>via2labelme\<close>

text \<open>
  The loop over the regions of one annotation, lines 449 to 473: the shapes, or the
  message the code prints before it returns 1.
\<close>

fun labelme_shapes :: "region list \<Rightarrow> string + shape list" where
  "labelme_shapes [] = Inr []"
| "labelme_shapes (r # rest) =
     (if sa_name r \<noteq> ''polygon''
      then Inl ''Error: shapes other than polygons not yet supported. Please modify via2labelme()''
      else if length (all_points_x r) \<noteq> length (all_points_y r)
      then Inl ''Error: annotation points mismatch''
      else (case labelme_shapes rest of
              Inl msg \<Rightarrow> Inl msg
            | Inr shps \<Rightarrow>
                Inr (\<lparr>label = ra_label r,
                      points = map (\<lambda>i. (of_int (py_int (all_points_x r ! i)),
                                          of_int (py_int (all_points_y r ! i))))
                                 [0..<length (all_points_x r)],
                      shape_type = sa_name r\<rparr> # shps)))"

text \<open>
  The body of the loop over the annotations, lines 431 to 485. \<open>cv2.imread\<close> gives
  \<open>None\<close> for a file that is no image or is not there, and \<open>image.shape\<close> then raises
  AttributeError, before the regions are read. Of the Labelme document the model keeps
  the shapes, the path and the dimensions; the version, the empty flags, the two random
  colours and the empty image data are left out.
\<close>

definition lme_ann_name_of :: "string \<Rightarrow> string" where
  "lme_ann_name_of file_name = replace_str (split_last CHR ''.'' file_name) ''json'' file_name"

definition via_record ::
  "(string \<Rightarrow> image option) \<Rightarrow> string \<Rightarrow> string \<Rightarrow> via_annotation \<Rightarrow> world \<Rightarrow> outcome \<times> world" where
  "via_record images input_dir output_dir via_annotation w =
     (let file_name = filename via_annotation
      in case images (path_join input_dir file_name) of
           None \<Rightarrow> (Raised AttributeError, w)
         | Some img \<Rightarrow>
             (case labelme_shapes (regions via_annotation) of
                Inl msg \<Rightarrow> (Returned1, print msg w)
              | Inr shps \<Rightarrow>
                  (let labelme_ann =
                         \<lparr>shapes = shps, imagePath = Some (JString file_name),
                          imageWidth = of_nat (im_width img), imageHeight = of_nat (im_height img)\<rparr>;
                       lme_ann_name = lme_ann_name_of file_name;
                       w1 = w\<lparr>files := (files w)(path_join output_dir lme_ann_name \<mapsto> LabelmeJson labelme_ann)\<rparr>
                   in copyfile images (path_join input_dir file_name)
                        (path_join output_dir file_name) w1)))"

text \<open>
  The conversion, lines 412 to 485. \<open>poly_file\<close> is what \<open>glob.glob(input_dir + "*.json")\<close>
  lists, each path with the parsed content of the file, a dict.
\<close>

definition via2labelme ::
  "(string \<Rightarrow> image option) \<Rightarrow> (string \<times> via_doc) list \<Rightarrow> string \<Rightarrow> string
     \<Rightarrow> world \<Rightarrow> outcome \<times> world" where
  "via2labelme images poly_file input_dir output_dir w =
     (if poly_file = []
      then (Returned1,
            print ''Error. No annotation file found. Check that .json annotations are in the input directory'' w)
      else if length poly_file > 1
      then (Returned1,
            print ''Error. There are more than one .json files in the input directory. Check VIA annotations'' w)
      else for_each (via_record images input_dir output_dir) (map snd (snd (hd poly_file))) w)"

text \<open>
  The image files on disk after a run that read \<open>images\<close> and left \<open>w\<close>: a copy holds
  the image it was copied from, a path the run wrote a text or a document to holds no
  image, every other path is as before.
\<close>

definition disk_images :: "(string \<Rightarrow> image option) \<Rightarrow> world \<Rightarrow> string \<Rightarrow> image option" where
  "disk_images images w p =
     (case files w p of
        None \<Rightarrow> images p
      | Some (ImageCopy src) \<Rightarrow> images src
      | Some _ \<Rightarrow> None)"

section \<open>Notions the properties are stated with\<close>

text \<open>The labels that occur in a corpus of Labelme documents.\<close>

definition corpus_labels :: "annotation list \<Rightarrow> string set" where
  "corpus_labels poly_file_list = (\<Union>a \<in> set poly_file_list. label ` set (shapes a))"

text \<open>A shape with every coordinate cut to an integer.\<close>

definition truncated :: "shape \<Rightarrow> shape" where
  "truncated sh =
     sh\<lparr>points := map (\<lambda>p. (of_int (py_int (fst p)), of_int (py_int (snd p)))) (points sh)\<rparr>"

text \<open>
  What labelme2via derives from one annotation file: the image format, the name of the
  image, the path whose size it takes, the key in the dict and the entry under the key.
\<close>

definition image_format_of :: "annotation \<Rightarrow> string" where
  "image_format_of poly_annotations = fst (detect_image_format poly_annotations empty_world)"

definition image_name_for :: "string \<times> annotation \<Rightarrow> string" where
  "image_name_for pf = image_name_of (fst pf) (image_format_of (snd pf))"

definition stat_path_for :: "string \<times> annotation \<Rightarrow> string" where
  "stat_path_for pf = replace_str ''.json'' (image_format_of (snd pf)) (fst pf)"

definition img_size_for :: "(string \<Rightarrow> image option) \<Rightarrow> string \<times> annotation \<Rightarrow> nat" where
  "img_size_for images pf = (case images (stat_path_for pf) of Some im \<Rightarrow> st_size im | None \<Rightarrow> 0)"

definition via_key :: "(string \<Rightarrow> image option) \<Rightarrow> string \<times> annotation \<Rightarrow> string" where
  "via_key images pf = image_name_for pf @ str_nat (img_size_for images pf)"

definition via_entry :: "(string \<Rightarrow> image option) \<Rightarrow> string \<times> annotation \<Rightarrow> via_annotation" where
  "via_entry images pf =
     \<lparr>filename = image_name_for pf, regions = map via_region (shapes (snd pf)),
      via_size = img_size_for images pf\<rparr>"

text \<open>
  Paths are compared as strings. A plain name is one path segment; a plain directory is
  a relative path of plain segments without wildcards of \<open>glob\<close>, ending with a slash.
  Paths made of different plain directories and plain names are different files, links
  aside, which the world does not have.
\<close>

definition plain_name :: "string \<Rightarrow> bool" where
  "plain_name n \<longleftrightarrow> n \<noteq> [] \<and> n \<noteq> ''.'' \<and> n \<noteq> ''..'' \<and> CHR ''/'' \<notin> set n"

definition plain_dir :: "string \<Rightarrow> bool" where
  "plain_dir d \<longleftrightarrow>
     d \<noteq> [] \<and> last d = CHR ''/''
     \<and> list_all (\<lambda>seg. plain_name seg \<and> CHR ''*'' \<notin> set seg \<and> CHR ''?'' \<notin> set seg
                        \<and> CHR ''['' \<notin> set seg)
         (split_char CHR ''/'' (butlast d))"

text \<open>
  Whether \<open>glob.glob(dir + "*.json")\<close> lists the path \<open>p\<close> when a file is there, for a
  plain directory: the file is in the directory itself, its name ends with \<open>.json\<close> and
  does not begin with a dot.
\<close>

definition listed_json :: "string \<Rightarrow> string \<Rightarrow> bool" where
  "listed_json dir p \<longleftrightarrow>
     take (length dir) p = dir
     \<and> (let name = drop (length dir) p
        in 5 < length name \<and> drop (length name - 5) name = ''.json''
           \<and> CHR ''/'' \<notin> set name \<and> hd name \<noteq> CHR ''.'')"

text \<open>
  The list \<open>l\<close> is what \<open>glob.glob(dir + "*.json")\<close> gives on the disk that a run which
  read \<open>images\<close> left as \<open>w\<close>, each path with the parsed content of the file: every file
  of the directory with such a name, once, and each of them a VIA document.
\<close>

definition lists_json_of ::
  "(string \<Rightarrow> image option) \<Rightarrow> world \<Rightarrow> string \<Rightarrow> (string \<times> via_doc) list \<Rightarrow> bool" where
  "lists_json_of images w dir l \<longleftrightarrow>
     distinct (map fst l)
     \<and> (\<forall>p. p \<in> fst ` set l \<longleftrightarrow> listed_json dir p \<and> (files w p \<noteq> None \<or> images p \<noteq> None))
     \<and> (\<forall>p d. (p, d) \<in> set l \<longrightarrow> files w p = Some (ViaJson d))"

text \<open>
  The round trip: labelme2via from \<open>input_dir\<close> into \<open>via_dir\<close>, then via2labelme from
  \<open>via_dir\<close> into \<open>output_dir\<close>. \<open>poly_file\<close> is what the second run's \<open>glob.glob\<close> lists
  in \<open>via_dir\<close>; the second run reads the images that are on disk after the first run.
\<close>

definition round_trip ::
  "(string \<Rightarrow> image option) \<Rightarrow> (string \<times> annotation) list \<Rightarrow> string \<Rightarrow> string \<Rightarrow> string
     \<Rightarrow> (string \<times> via_doc) list \<Rightarrow> world \<Rightarrow> outcome \<times> world" where
  "round_trip images poly_file_list input_dir via_dir output_dir poly_file w =
     (case labelme2via images poly_file_list input_dir via_dir w of
        (Finished, w1) \<Rightarrow> via2labelme (disk_images images w1) poly_file via_dir output_dir w1
      | (out, w1) \<Rightarrow> (out, w1))"


definition is_float64 :: "rat \<Rightarrow> bool" where
  "is_float64 x \<longleftrightarrow>
     (\<exists>m :: int. \<exists>a b :: nat.
        x = of_int m * 2 ^ a / 2 ^ b \<and> \<bar>m\<bar> < 2 ^ 53 \<and> a \<le> 971 \<and> b \<le> 1074)"


text \<open>
  A floating-point operation whose exact result is a value of float64 gives that value.
  So lines 120 to 123 compute without rounding and without wrap-around, for two corners
  in either order, when the array has dtype int64 or float64 and keeps the coordinates,
  which it does for values of float64 within the range of int64, and the differences of
  the coordinates, the halves of the differences and the centre are values of float64,
  the differences within the range of int64.
\<close>

definition rect_exact :: "point \<Rightarrow> point \<Rightarrow> bool" where
  "rect_exact p0 p1 \<longleftrightarrow>
     list_all (\<lambda>c. is_float64 c \<and> \<bar>c\<bar> < 2 ^ 63) [fst p0, snd p0, fst p1, snd p1]
     \<and> list_all (\<lambda>d. is_float64 d \<and> \<bar>d\<bar> < 2 ^ 63) [fst p1 - fst p0, snd p0 - snd p1]
     \<and> list_all is_float64
         [(fst p1 - fst p0) / 2, fst p0 + (fst p1 - fst p0) / 2,
          (snd p0 - snd p1) / 2, snd p1 + (snd p0 - snd p1) / 2]"

section \<open>Properties\<close>

subsection \<open>Writes to one path leave the files at other paths alone\<close>

lemma files_write_a_other: "p \<noteq> q \<Longrightarrow> files (write_a q s w) p = files w p"
  by (simp add: write_a_def)

lemma files_open_w_other: "p \<noteq> q \<Longrightarrow> files (open_w q w) p = files w p"
  by (simp add: open_w_def)

lemma files_foldl_write_a_other:
  "p \<noteq> q \<Longrightarrow> files (foldl (\<lambda>w i. write_a q (g i) (write_a q (f i) w)) w xs) p = files w p"
  by (induction xs arbitrary: w) (simp_all add: files_write_a_other)

lemma files_write_classes_other:
  "p \<noteq> q \<Longrightarrow> files (snd (write_classes q label_list w)) p = files w p"
  by (simp add: write_classes_def files_foldl_write_a_other files_open_w_other)

subsection \<open>The rectangle scenario\<close>

lemma box_yolo_out_scenario:
  assumes "repr_float (Some (3 / 10)) = ''0.3''"
    and "repr_float (Some (1 / 4)) = ''0.25''"
    and "repr_float (Some (2 / 5)) = ''0.4''"
  shows "box_yolo_out repr_float 0 [Some (3 / 10), Some (1 / 4), Some (2 / 5), Some (3 / 10)]
         = ''0 0.3 0.25 0.4 0.3''"
  using assms
  by (simp add: box_yolo_out_def str_list_def str_nat.simps digit_char_def replace_str.simps)

text \<open>
  C1. The file \<open>in/a.json\<close> holds one rectangle with the points (10, 10) and (50, 40) and
  the label \<open>cat\<close>; the image is 100 by 100 and \<open>cat\<close> is at position 0 of the label
  table. Whatever the images on disk and whatever the run found before, labelmerect2yolo
  leaves \<open>out/a.txt\<close> holding exactly the line \<open>0 0.3 0.25 0.4 0.3\<close> and a newline,
  provided Python writes the floats 3/10, 1/4 and 2/5 as \<open>0.3\<close>, \<open>0.25\<close> and \<open>0.4\<close>.
\<close>

theorem labelmerect2yolo_scenario:
  assumes "repr_float (Some (3 / 10)) = ''0.3''"
    and "repr_float (Some (1 / 4)) = ''0.25''"
    and "repr_float (Some (2 / 5)) = ''0.4''"
    and "index_of (fst label_list) ''cat'' = Some 0"
  shows "files (snd (labelmerect2yolo repr_float images
           [(''in/a.json'',
             \<lparr>shapes = [\<lparr>label = ''cat'', points = [(10, 10), (50, 40)], shape_type = ''rectangle''\<rparr>],
              imagePath = Some (JString ''a.jpg''), imageWidth = 100, imageHeight = 100\<rparr>)]
           ''out/'' label_list w)) ''out/a.txt''
         = Some (Text (''0 0.3 0.25 0.4 0.3'' @ newline))"
proof -
  have box: "rect_box [(10, 10), (50, 40)] (100, 100)
             = Inr [Some (3 / 10), Some (1 / 4), Some (2 / 5), Some (3 / 10)]"
    by (simp add: rect_box_def rect_extent_def np_div_def)
  have fmt: "split_last CHR ''.'' ''a.jpg'' = ''jpg''"
    by (simp add: split_last_def)
  have base: "split_last CHR ''/'' ''in/a.json'' = ''a.json''"
    by (simp add: split_last_def)
  have r1: "replace_str ''.json'' ''.txt'' ''a.json'' = ''a.txt''"
    by (simp add: replace_str.simps)
  have r2: "replace_str ''.json'' ''.jpg'' ''in/a.json'' = ''in/a.jpg''"
    by (simp add: replace_str.simps)
  have r3: "replace_str ''.txt'' ''.jpg'' ''a.txt'' = ''a.jpg''"
    by (simp add: replace_str.simps)
  show ?thesis
    using assms(4)
    by (auto simp add: Let_def labelmerect2yolo_def labelmerect2yolo_file_def
        detect_image_format_def rect_shape_def box box_yolo_out_scenario[OF assms(1-3)]
        fmt base r1 r2 r3 copyfile_def write_a_def open_w_def files_write_classes_other
        split: prod.splits)
qed

theorem labelmerect2yolo_scenario_witness:
  "files (snd (labelmerect2yolo
           (\<lambda>q. if q = Some (3 / 10) then ''0.3'' else if q = Some (1 / 4) then ''0.25'' else ''0.4'')
           (\<lambda>p. if p = ''in/a.jpg'' then Some \<lparr>st_size = 7, im_height = 100, im_width = 100\<rparr> else None)
           [(''in/a.json'',
             \<lparr>shapes = [\<lparr>label = ''cat'', points = [(10, 10), (50, 40)], shape_type = ''rectangle''\<rparr>],
              imagePath = Some (JString ''a.jpg''), imageWidth = 100, imageHeight = 100\<rparr>)]
           ''out/'' ([''cat''], [0]) empty_world)) ''out/a.txt''
         = Some (Text (''0 0.3 0.25 0.4 0.3'' @ newline))"
  by (rule labelmerect2yolo_scenario) simp_all

subsection \<open>The corners of a rectangle\<close>

lemma is_float64_of_int: "\<bar>n\<bar> < 2 ^ 53 \<Longrightarrow> is_float64 (of_int n)"
  unfolding is_float64_def by (rule exI [of _ n], rule exI [of _ 0], rule exI [of _ 0]) simp

text \<open>
  C10, as the claim states it, fails when the corners are far apart. The coordinates of
  the corners \<open>(-4611686018427387904, 0)\<close> and \<open>(6917529027641081856, 0)\<close> are integers
  within the range of int64, so the array has dtype int64, and the difference of their
  x coordinates, 11529215046068469760, is outside that range. Line 120 gives the width
  -6917529027641081856 for this order of the corners and 6917529027641081856 for the
  other: in absolute value neither is the absolute difference of the coordinates.
\<close>

theorem rect_width_int64_wraps:
  "rect_width_int64 [(- 4611686018427387904, 0), (6917529027641081856, 0)]
     = Inr (- 6917529027641081856)
   \<and> rect_width_int64 [(6917529027641081856, 0), (- 4611686018427387904, 0)]
     = Inr 6917529027641081856
   \<and> \<bar>fst (6917529027641081856 :: rat, 0 :: rat) - fst (- 4611686018427387904 :: rat, 0 :: rat)\<bar>
     = 11529215046068469760"
  by (simp add: rect_width_int64_def int64_def)

text \<open>
  C10, amended. When lines 120 to 123 compute without rounding and without wrap-around
  for the two corners, and the width and height of the image are values of float64 other
  than 0, the box is the same whichever corner comes first: its centre is the midpoint
  of the corners and its width and height are the absolute differences of their
  coordinates, each divided by the width or height of the image. An entry \<open>Some q\<close> of the
  box stands for the float64 that the one division of lines 125 to 128 gives when its
  exact quotient is \<open>q\<close>. For a rectangle with a known label the loop body writes this box,
  for either order of the corners, as one line followed by a newline.
\<close>

theorem rect_box_corner_order:
  assumes exact: "rect_exact p0 p1"
    and dims: "is_float64 (fst img_dims) \<and> is_float64 (snd img_dims)
               \<and> fst img_dims \<noteq> 0 \<and> snd img_dims \<noteq> 0"
  shows "rect_box [p0, p1] img_dims = rect_box [p1, p0] img_dims
       \<and> rect_box [p0, p1] img_dims =
           Inr [Some ((fst p0 + fst p1) / 2 / fst img_dims),
                Some ((snd p0 + snd p1) / 2 / snd img_dims),
                Some (\<bar>fst p1 - fst p0\<bar> / \<bar>fst img_dims\<bar>),
                Some (\<bar>snd p0 - snd p1\<bar> / \<bar>snd img_dims\<bar>)]
       \<and> (\<forall>sh shape_label_id.
             shape_type sh = ''rectangle'' \<and> index_of labels (label sh) = Some shape_label_id
             \<and> (points sh = [p0, p1] \<or> points sh = [p1, p0])
             \<longrightarrow> rect_shape repr_float labels img_dims yolo_outfile sh w =
                   (Finished,
                    write_a yolo_outfile newline
                      (write_a yolo_outfile
                         (box_yolo_out repr_float shape_label_id
                            [Some ((fst p0 + fst p1) / 2 / fst img_dims),
                             Some ((snd p0 + snd p1) / 2 / snd img_dims),
                             Some (\<bar>fst p1 - fst p0\<bar> / \<bar>fst img_dims\<bar>),
                             Some (\<bar>snd p0 - snd p1\<bar> / \<bar>snd img_dims\<bar>)]) w)))"
proof -
  let ?box = "[Some ((fst p0 + fst p1) / 2 / fst img_dims),
                Some ((snd p0 + snd p1) / 2 / snd img_dims),
                Some (\<bar>fst p1 - fst p0\<bar> / \<bar>fst img_dims\<bar>),
                Some (\<bar>snd p0 - snd p1\<bar> / \<bar>snd img_dims\<bar>)]"
  have cx: "fst p0 + (fst p1 - fst p0) / 2 = (fst p0 + fst p1) / 2"
    by (simp add: field_simps)
  have cx': "fst p1 + (fst p0 - fst p1) / 2 = (fst p0 + fst p1) / 2"
    by (simp add: field_simps)
  have cy: "snd p1 + (snd p0 - snd p1) / 2 = (snd p0 + snd p1) / 2"
    by (simp add: field_simps)
  have cy': "snd p0 + (snd p1 - snd p0) / 2 = (snd p0 + snd p1) / 2"
    by (simp add: field_simps)
  have a1: "\<bar>fst p0 - fst p1\<bar> = \<bar>fst p1 - fst p0\<bar>" by simp
  have a2: "\<bar>snd p1 - snd p0\<bar> = \<bar>snd p0 - snd p1\<bar>" by simp
  have b1: "rect_box [p0, p1] img_dims = Inr ?box"
    using dims by (simp add: rect_box_def rect_extent_def np_div_def Let_def cx cy)
  have b2: "rect_box [p1, p0] img_dims = Inr ?box"
    using dims by (simp add: rect_box_def rect_extent_def np_div_def Let_def cx' cy' a1 a2)
  have emits: "rect_shape repr_float labels img_dims yolo_outfile sh w =
                   (Finished,
                    write_a yolo_outfile newline
                      (write_a yolo_outfile (box_yolo_out repr_float shape_label_id ?box) w))"
    if "shape_type sh = ''rectangle'' \<and> index_of labels (label sh) = Some shape_label_id
        \<and> (points sh = [p0, p1] \<or> points sh = [p1, p0])" for sh shape_label_id
    using that b1 b2 by (auto simp: rect_shape_def)
  show ?thesis
    using b1 b2 emits by simp
qed

theorem rect_box_corner_order_witness:
  "rect_exact (10, 10) (50, 40)
   \<and> rect_box [(50, 40), (10, 10)] (100, 100) = rect_box [(10, 10), (50, 40)] (100, 100)
   \<and> rect_box [(10, 10), (50, 40)] (100, 100)
     = Inr [Some (3 / 10), Some (1 / 4), Some (2 / 5), Some (3 / 10)]
   \<and> rect_shape (\<lambda>q. if q = Some (3 / 10) then ''0.3'' else if q = Some (1 / 4) then ''0.25'' else ''0.4'')
       [''cat''] (100, 100) ''out/a.txt''
       \<lparr>label = ''cat'', points = [(50, 40), (10, 10)], shape_type = ''rectangle''\<rparr> empty_world
     = (Finished,
        write_a ''out/a.txt'' newline (write_a ''out/a.txt'' ''0 0.3 0.25 0.4 0.3'' empty_world))"
proof -
  let ?rf = "\<lambda>q. if q = Some (3 / 10 :: rat) then ''0.3'' else if q = Some (1 / 4) then ''0.25'' else ''0.4''"
  let ?sh = "\<lparr>label = ''cat'', points = [(50, 40), (10, 10)], shape_type = ''rectangle''\<rparr>"
  have f: "is_float64 10" "is_float64 50" "is_float64 40" "is_float64 20" "is_float64 30"
      "is_float64 (- 30)" "is_float64 (- 15)" "is_float64 25" "is_float64 100"
    using is_float64_of_int [of 10] is_float64_of_int [of 50] is_float64_of_int [of 40]
      is_float64_of_int [of 20] is_float64_of_int [of 30] is_float64_of_int [of "- 30"]
      is_float64_of_int [of "- 15"] is_float64_of_int [of 25] is_float64_of_int [of 100]
    by simp_all
  have exact: "rect_exact (10, 10) (50, 40)"
    by (simp add: rect_exact_def f)
  have dims: "is_float64 (fst (100 :: rat, 100 :: rat)) \<and> is_float64 (snd (100 :: rat, 100 :: rat))
               \<and> fst (100 :: rat, 100 :: rat) \<noteq> 0 \<and> snd (100 :: rat, 100 :: rat) \<noteq> 0"
    by (simp add: f)
  note t = rect_box_corner_order [OF exact dims, of "[''cat'']" ?rf "''out/a.txt''" empty_world]
  have val: "rect_box [(10, 10), (50, 40)] (100, 100)
     = Inr [Some (3 / 10), Some (1 / 4), Some (2 / 5), Some (3 / 10)]"
    using conjunct1 [OF conjunct2 [OF t]] by simp
  have sym: "rect_box [(50, 40), (10, 10)] (100, 100) = rect_box [(10, 10), (50, 40)] (100, 100)"
    by (rule conjunct1 [OF t, symmetric])
  have "shape_type ?sh = ''rectangle'' \<and> index_of [''cat''] (label ?sh) = Some 0
        \<and> (points ?sh = [(10, 10), (50, 40)] \<or> points ?sh = [(50, 40), (10, 10)])"
    by simp
  with conjunct2 [OF conjunct2 [OF t]] have "rect_shape ?rf [''cat''] (100, 100) ''out/a.txt'' ?sh empty_world =
      (Finished,
       write_a ''out/a.txt'' newline
         (write_a ''out/a.txt''
            (box_yolo_out ?rf 0
               [Some ((fst (10 :: rat, 10 :: rat) + fst (50 :: rat, 40 :: rat)) / 2 / fst (100 :: rat, 100 :: rat)),
                Some ((snd (10 :: rat, 10 :: rat) + snd (50 :: rat, 40 :: rat)) / 2 / snd (100 :: rat, 100 :: rat)),
                Some (\<bar>fst (50 :: rat, 40 :: rat) - fst (10 :: rat, 10 :: rat)\<bar> / \<bar>fst (100 :: rat, 100 :: rat)\<bar>),
                Some (\<bar>snd (10 :: rat, 10 :: rat) - snd (50 :: rat, 40 :: rat)\<bar> / \<bar>snd (100 :: rat, 100 :: rat)\<bar>)])
            empty_world))"
    by blast
  then have w: "rect_shape ?rf [''cat''] (100, 100) ''out/a.txt'' ?sh empty_world =
      (Finished,
       write_a ''out/a.txt'' newline (write_a ''out/a.txt'' ''0 0.3 0.25 0.4 0.3'' empty_world))"
    by (simp add: box_yolo_out_scenario)
  show ?thesis
    using exact sym val w by simp
qed

subsection \<open>The bounding box of a polygon\<close>














subsection \<open>The number of JSON files via2labelme accepts\<close>

text \<open>
  C6. When the input directory holds no JSON file, or more than one, via2labelme prints
  the matching error and returns 1, and it has written or copied no file.
\<close>

theorem via2labelme_input_cardinality:
  assumes "length poly_file \<noteq> 1"
  shows "fst (via2labelme images poly_file input_dir output_dir w) = Returned1
       \<and> files (snd (via2labelme images poly_file input_dir output_dir w)) = files w
       \<and> printed (snd (via2labelme images poly_file input_dir output_dir w)) =
           printed w @
             [if poly_file = []
              then ''Error. No annotation file found. Check that .json annotations are in the input directory''
              else ''Error. There are more than one .json files in the input directory. Check VIA annotations'']"
proof (cases "poly_file = []")
  case True
  then show ?thesis by (simp add: via2labelme_def print_def)
next
  case False
  with assms have "length poly_file > 1" by (cases poly_file) auto
  with False show ?thesis by (simp add: via2labelme_def print_def)
qed

theorem via2labelme_input_cardinality_witness:
  "length ([] :: (string \<times> via_doc) list) \<noteq> 1
   \<and> via2labelme (\<lambda>p. None) [] ''in/'' ''out/'' empty_world =
       (Returned1,
        \<lparr>files = (\<lambda>p. None),
         printed = [''Error. No annotation file found. Check that .json annotations are in the input directory'']\<rparr>)"
proof -
  have h: "length ([] :: (string \<times> via_doc) list) \<noteq> 1" by simp
  from via2labelme_input_cardinality [OF h, of "\<lambda>p. None" "''in/''" "''out/''" empty_world] h
  show ?thesis
    by (cases "via2labelme (\<lambda>p. None) [] ''in/'' ''out/'' empty_world")
      (simp add: empty_world_def)
qed

subsection \<open>create_empty_txt_yolo\<close>

text \<open>
  C8. On the directory \<open>d/\<close> and the default image format the function raises TypeError
  at its first statement; it creates no file.
\<close>

theorem create_empty_txt_yolo_raises:
  "create_empty_txt_yolo ''d/'' ''.jpg'' empty_world = (Raised TypeError, empty_world)"
  by (simp add: create_empty_txt_yolo_def glob_module_call_def)

subsection \<open>The image format\<close>

lemma split_char_not_Nil: "split_char c s \<noteq> []"
  by (induction s) (auto split: list.splits)

lemma length_split_char: "length (split_char c s) = Suc (length (filter (\<lambda>x. x = c) s))"
  by (induction s) (auto split: list.splits)

lemma split_char_no_sep: "c \<notin> set s \<Longrightarrow> split_char c s = [s]"
  by (induction s) auto

lemma last_split_char_append: "last (split_char c (xs @ c # ys)) = last (split_char c ys)"
proof (induction xs)
  case Nil
  then show ?case by (simp add: split_char_not_Nil)
next
  case (Cons x xs)
  have "length (split_char c (xs @ c # ys)) \<ge> 2"
    by (simp add: length_split_char)
  then obtain w v ws where "split_char c (xs @ c # ys) = w # v # ws"
    by (cases "split_char c (xs @ c # ys)"; cases "tl (split_char c (xs @ c # ys))") auto
  with Cons show ?case by (auto simp: split_char_not_Nil)
qed

lemma split_last_no_sep: "c \<notin> set s \<Longrightarrow> split_last c s = s"
  by (simp add: split_last_def split_char_no_sep)

lemma split_last_ext: "c \<notin> set ext \<Longrightarrow> split_last c (stem @ c # ext) = ext"
  by (simp add: split_last_def last_split_char_append split_char_no_sep)

lemma detect_default:
  assumes "\<forall>p. imagePath a \<noteq> Some (JString p)"
  shows "detect_image_format a w = (''.jpg'', print ''Warning! Format detection unsuccessful'' w)"
  using assms by (auto simp: detect_image_format_def split: option.splits jvalue.splits)

lemma detect_jpg:
  "detect_image_format (a\<lparr>imagePath := Some (JString ''image.jpg'')\<rparr>) w = (''.jpg'', w)"
  by (simp add: detect_image_format_def split_last_def)

text \<open>
  C9, as the claim states it, fails on a path without an extension: for the path
  \<open>photo\<close> the format is \<open>.photo\<close>, not the default, and nothing is printed.
\<close>

theorem detect_image_format_no_extension:
  "detect_image_format
     \<lparr>shapes = [], imagePath = Some (JString ''photo''), imageWidth = 100, imageHeight = 100\<rparr>
     empty_world = (''.photo'', empty_world)"
  by (simp add: detect_image_format_def split_last_def)

text \<open>
  C9, amended. When the key \<open>imagePath\<close> is missing or its value is no string, the
  converters take the default \<open>.jpg\<close>, print the warning and go on with the file exactly
  as they do, after the warning, for a file whose path is \<open>image.jpg\<close>. When the value is
  a string, nothing is printed and the format is a dot and the text after the last dot
  of the string; for a string without a dot that is a dot and the whole string.
\<close>

theorem detect_image_format_cases:
  "((\<forall>p. imagePath a \<noteq> Some (JString p)) \<longrightarrow>
        detect_image_format a w = (''.jpg'', print ''Warning! Format detection unsuccessful'' w)
      \<and> labelmerect2yolo_file repr_float images output_dir label_list (poly_file, a) w
          = labelmerect2yolo_file repr_float images output_dir label_list
              (poly_file, a\<lparr>imagePath := Some (JString ''image.jpg'')\<rparr>)
              (print ''Warning! Format detection unsuccessful'' w)
      \<and> labelmepoly2yolo_file repr_float images output_dir label_list (poly_file, a) w
          = labelmepoly2yolo_file repr_float images output_dir label_list
              (poly_file, a\<lparr>imagePath := Some (JString ''image.jpg'')\<rparr>)
              (print ''Warning! Format detection unsuccessful'' w))
   \<and> (\<forall>stem ext. imagePath a = Some (JString (stem @ ''.'' @ ext)) \<and> CHR ''.'' \<notin> set ext \<longrightarrow>
        detect_image_format a w = (''.'' @ ext, w))
   \<and> (\<forall>p. imagePath a = Some (JString p) \<and> CHR ''.'' \<notin> set p \<longrightarrow>
        detect_image_format a w = (''.'' @ p, w))"
proof (intro conjI impI allI)
  assume h: "\<forall>p. imagePath a \<noteq> Some (JString p)"
  show "detect_image_format a w = (''.jpg'', print ''Warning! Format detection unsuccessful'' w)"
    by (rule detect_default [OF h])
  show "labelmerect2yolo_file repr_float images output_dir label_list (poly_file, a) w
          = labelmerect2yolo_file repr_float images output_dir label_list
              (poly_file, a\<lparr>imagePath := Some (JString ''image.jpg'')\<rparr>)
              (print ''Warning! Format detection unsuccessful'' w)"
    by (simp add: labelmerect2yolo_file_def detect_default [OF h] detect_jpg)
  show "labelmepoly2yolo_file repr_float images output_dir label_list (poly_file, a) w
          = labelmepoly2yolo_file repr_float images output_dir label_list
              (poly_file, a\<lparr>imagePath := Some (JString ''image.jpg'')\<rparr>)
              (print ''Warning! Format detection unsuccessful'' w)"
    by (simp add: labelmepoly2yolo_file_def detect_default [OF h] detect_jpg)
next
  fix stem ext
  assume "imagePath a = Some (JString (stem @ ''.'' @ ext)) \<and> CHR ''.'' \<notin> set ext"
  then show "detect_image_format a w = (''.'' @ ext, w)"
    by (simp add: detect_image_format_def split_last_ext)
next
  fix p
  assume "imagePath a = Some (JString p) \<and> CHR ''.'' \<notin> set p"
  then show "detect_image_format a w = (''.'' @ p, w)"
    by (simp add: detect_image_format_def split_last_no_sep)
qed

theorem detect_image_format_cases_witness:
  "detect_image_format
     \<lparr>shapes = [], imagePath = None, imageWidth = 100, imageHeight = 100\<rparr> empty_world
     = (''.jpg'', print ''Warning! Format detection unsuccessful'' empty_world)
   \<and> detect_image_format
     \<lparr>shapes = [], imagePath = Some (JString ''dir.v2/a.png''), imageWidth = 100, imageHeight = 100\<rparr>
     empty_world = (''.png'', empty_world)
   \<and> detect_image_format
     \<lparr>shapes = [], imagePath = Some (JString ''photo''), imageWidth = 100, imageHeight = 100\<rparr>
     empty_world = (''.photo'', empty_world)"
proof -
  let ?a = "\<lambda>v. \<lparr>shapes = [], imagePath = v, imageWidth = 100, imageHeight = 100\<rparr>"
  have 1: "detect_image_format (?a None) empty_world
           = (''.jpg'', print ''Warning! Format detection unsuccessful'' empty_world)"
    using detect_image_format_cases [of "?a None" empty_world] by simp
  have "imagePath (?a (Some (JString ''dir.v2/a.png''))) = Some (JString (''dir.v2/a'' @ ''.'' @ ''png''))
        \<and> CHR ''.'' \<notin> set ''png''"
    by simp
  then have 2: "detect_image_format (?a (Some (JString ''dir.v2/a.png''))) empty_world
           = (''.'' @ ''png'', empty_world)"
    using detect_image_format_cases [of "?a (Some (JString ''dir.v2/a.png''))" empty_world]
    by blast
  have "imagePath (?a (Some (JString ''photo''))) = Some (JString ''photo'') \<and> CHR ''.'' \<notin> set ''photo''"
    by simp
  then have 3: "detect_image_format (?a (Some (JString ''photo''))) empty_world
           = (''.'' @ ''photo'', empty_world)"
    using detect_image_format_cases [of "?a (Some (JString ''photo''))" empty_world]
    by blast
  from 1 2 3 show ?thesis by simp
qed

subsection \<open>The label table\<close>

lemma set_foldl_add_label: "set (foldl add_label acc shs) = set acc \<union> label ` set shs"
  by (induction shs arbitrary: acc) (auto simp: add_label_def)

lemma distinct_foldl_add_label: "distinct acc \<Longrightarrow> distinct (foldl add_label acc shs)"
  by (induction shs arbitrary: acc) (auto simp: add_label_def)

lemma set_collect_labels:
  "set (foldl (\<lambda>acc a. foldl add_label acc (shapes a)) acc c) = set acc \<union> corpus_labels c"
  by (induction c arbitrary: acc) (auto simp: corpus_labels_def set_foldl_add_label)

lemma distinct_collect_labels:
  "distinct acc \<Longrightarrow> distinct (foldl (\<lambda>acc a. foldl add_label acc (shapes a)) acc c)"
  by (induction c arbitrary: acc) (auto simp: distinct_foldl_add_label)

lemma finite_corpus_labels: "finite (corpus_labels c)"
  by (simp add: corpus_labels_def)

lemma extract_labelme_labels_eq:
  "extract_labelme_labels c =
     (sorted_list_of_set (corpus_labels c), [0..<card (corpus_labels c)])"
proof -
  define ls where "ls = foldl (\<lambda>acc a. foldl add_label acc (shapes a)) [] c"
  have s: "set ls = corpus_labels c" and d: "distinct ls"
    by (simp_all add: ls_def set_collect_labels distinct_collect_labels)
  have "sort ls = sorted_list_of_set (set ls)"
    using d by (simp add: sorted_list_of_set_sort_remdups distinct_remdups_id)
  then have 1: "sort ls = sorted_list_of_set (corpus_labels c)"
    by (simp add: s)
  have 2: "length ls = card (corpus_labels c)"
    using distinct_card [OF d] by (simp add: s)
  show ?thesis
    by (simp add: extract_labelme_labels_def Let_def ls_def [symmetric] 1 2)
qed

lemma corpus_labels_mset:
  "corpus_labels c = (\<Union>m \<in> set_mset (mset (map (\<lambda>a. mset (shapes a)) c)). label ` set_mset m)"
  by (auto simp: corpus_labels_def)

text \<open>
  C4. When one corpus is the other with its files permuted and the shapes permuted
  within the files, extract_labelme_labels gives the same table for both. The table is
  the set of the labels of the corpus in ascending lexicographic order, and the ids are
  0 up to the number of labels less one, position by position.
\<close>

theorem extract_labelme_labels_order_independent:
  assumes "mset (map (\<lambda>a. mset (shapes a)) c1) = mset (map (\<lambda>a. mset (shapes a)) c2)"
  shows "extract_labelme_labels c1 = extract_labelme_labels c2
       \<and> fst (extract_labelme_labels c1) = sorted_list_of_set (corpus_labels c1)
       \<and> snd (extract_labelme_labels c1) = [0..<card (corpus_labels c1)]
       \<and> length (fst (extract_labelme_labels c1)) = card (corpus_labels c1)"
proof -
  have "corpus_labels c1 = corpus_labels c2"
    by (simp only: corpus_labels_mset assms)
  then show ?thesis
    by (simp add: extract_labelme_labels_eq finite_corpus_labels)
qed

theorem extract_labelme_labels_order_independent_witness:
  "mset (map (\<lambda>a. mset (shapes a))
      [\<lparr>shapes = [\<lparr>label = ''dog'', points = [(0, 0), (1, 1)], shape_type = ''rectangle''\<rparr>,
                  \<lparr>label = ''cat'', points = [(0, 0), (1, 0), (0, 1)], shape_type = ''polygon''\<rparr>],
        imagePath = None, imageWidth = 1, imageHeight = 1\<rparr>,
       \<lparr>shapes = [\<lparr>label = ''cat'', points = [(2, 2), (3, 2), (2, 3)], shape_type = ''polygon''\<rparr>],
        imagePath = None, imageWidth = 1, imageHeight = 1\<rparr>])
   = mset (map (\<lambda>a. mset (shapes a))
      [\<lparr>shapes = [\<lparr>label = ''cat'', points = [(2, 2), (3, 2), (2, 3)], shape_type = ''polygon''\<rparr>],
        imagePath = None, imageWidth = 1, imageHeight = 1\<rparr>,
       \<lparr>shapes = [\<lparr>label = ''cat'', points = [(0, 0), (1, 0), (0, 1)], shape_type = ''polygon''\<rparr>,
                  \<lparr>label = ''dog'', points = [(0, 0), (1, 1)], shape_type = ''rectangle''\<rparr>],
        imagePath = None, imageWidth = 1, imageHeight = 1\<rparr>])
   \<and> extract_labelme_labels
      [\<lparr>shapes = [\<lparr>label = ''dog'', points = [(0, 0), (1, 1)], shape_type = ''rectangle''\<rparr>,
                  \<lparr>label = ''cat'', points = [(0, 0), (1, 0), (0, 1)], shape_type = ''polygon''\<rparr>],
        imagePath = None, imageWidth = 1, imageHeight = 1\<rparr>,
       \<lparr>shapes = [\<lparr>label = ''cat'', points = [(2, 2), (3, 2), (2, 3)], shape_type = ''polygon''\<rparr>],
        imagePath = None, imageWidth = 1, imageHeight = 1\<rparr>]
   = extract_labelme_labels
      [\<lparr>shapes = [\<lparr>label = ''cat'', points = [(2, 2), (3, 2), (2, 3)], shape_type = ''polygon''\<rparr>],
        imagePath = None, imageWidth = 1, imageHeight = 1\<rparr>,
       \<lparr>shapes = [\<lparr>label = ''cat'', points = [(0, 0), (1, 0), (0, 1)], shape_type = ''polygon''\<rparr>,
                  \<lparr>label = ''dog'', points = [(0, 0), (1, 1)], shape_type = ''rectangle''\<rparr>],
        imagePath = None, imageWidth = 1, imageHeight = 1\<rparr>]
   \<and> extract_labelme_labels
      [\<lparr>shapes = [\<lparr>label = ''dog'', points = [(0, 0), (1, 1)], shape_type = ''rectangle''\<rparr>,
                  \<lparr>label = ''cat'', points = [(0, 0), (1, 0), (0, 1)], shape_type = ''polygon''\<rparr>],
        imagePath = None, imageWidth = 1, imageHeight = 1\<rparr>,
       \<lparr>shapes = [\<lparr>label = ''cat'', points = [(2, 2), (3, 2), (2, 3)], shape_type = ''polygon''\<rparr>],
        imagePath = None, imageWidth = 1, imageHeight = 1\<rparr>]
   = ([''cat'', ''dog''], [0, 1])"
  (is "?h \<and> ?eq \<and> ?val")
proof -
  have h: ?h
    by (simp add: add_mset_commute)
  have v: ?val
    by (simp add: extract_labelme_labels_def add_label_def)
  from extract_labelme_labels_order_independent [OF h] h v
  show ?thesis by blast
qed

subsection \<open>A shape of the wrong kind\<close>

lemma for_each_append:
  "for_each body (xs @ ys) w =
     (case for_each body xs w of
        (Finished, w1) \<Rightarrow> for_each body ys w1
      | (out, w1) \<Rightarrow> (out, w1))"
  by (induction xs arbitrary: w) (auto split: prod.splits outcome.splits)

lemma via_files_append:
  "via_files images input_dir output_dir (xs @ ys) st =
     (case via_files images input_dir output_dir xs st of
        (Finished, st1) \<Rightarrow> via_files images input_dir output_dir ys st1
      | (out, st1) \<Rightarrow> (out, st1))"
  by (induction xs arbitrary: st) (auto split: prod.splits outcome.splits)

lemma via_regions_None: "via_regions shs = None \<longleftrightarrow> (\<exists>sh \<in> set shs. shape_type sh \<noteq> ''polygon'')"
  by (induction shs) auto

lemma files_detect_image_format: "files (snd (detect_image_format a w)) = files w"
  by (auto simp: detect_image_format_def print_def split: option.splits jvalue.splits)

lemma files_copyfile:
  "files (snd (copyfile images src dst w)) p = files w p
   \<or> (\<exists>s. files (snd (copyfile images src dst w)) p = Some (ImageCopy s))"
  by (simp add: copyfile_def)

lemma files_via_file:
  "files (snd (snd (via_file images input_dir output_dir pf st))) p = files (snd st) p
   \<or> (\<exists>s. files (snd (snd (via_file images input_dir output_dir pf st))) p = Some (ImageCopy s))"
  using files_detect_image_format [of "snd pf" "snd st"]
  by (auto simp: via_file_def Let_def print_def copyfile_def split: prod.splits option.splits)

lemma files_via_files:
  "files (snd (snd (via_files images input_dir output_dir pfs st))) p = files (snd st) p
   \<or> (\<exists>s. files (snd (snd (via_files images input_dir output_dir pfs st))) p = Some (ImageCopy s))"
proof (induction pfs arbitrary: st)
  case Nil
  show ?case by simp
next
  case (Cons pf pfs)
  obtain out st' where r: "via_file images input_dir output_dir pf st = (out, st')"
    by (cases "via_file images input_dir output_dir pf st") auto
  have step: "files (snd st') p = files (snd st) p \<or> (\<exists>s. files (snd st') p = Some (ImageCopy s))"
    using files_via_file [of images input_dir output_dir pf st p] by (simp add: r)
  show ?case
  proof (cases out)
    case Finished
    then have "via_files images input_dir output_dir (pf # pfs) st
               = via_files images input_dir output_dir pfs st'"
      by (simp add: r)
    then show ?thesis using Cons.IH [of st'] step by auto
  next
    case Returned1
    then show ?thesis using step by (simp add: r)
  next
    case (Raised e)
    then show ?thesis using step by (simp add: r)
  qed
qed

lemma via_file_non_polygon:
  assumes "sh \<in> set (shapes (snd pf))" and "shape_type sh \<noteq> ''polygon''"
  shows "fst (via_file images input_dir output_dir pf st) \<noteq> Finished"
proof -
  have "via_regions (shapes (snd pf)) = None"
    using assms by (auto simp: via_regions_None)
  then show ?thesis
    by (auto simp: via_file_def Let_def split: prod.splits option.splits)
qed

lemma via_file_non_polygon_reached:
  assumes "sh \<in> set (shapes (snd pf))" and "shape_type sh \<noteq> ''polygon''"
    and "images (replace_str ''.json'' (fst (detect_image_format (snd pf) (snd st))) (fst pf)) \<noteq> None"
  shows "via_file images input_dir output_dir pf st =
           (Returned1, fst st,
            print ''Error: shapes other than polygons not yet supported. Please modify labelme2via()''
              (snd (detect_image_format (snd pf) (snd st))))"
proof -
  have "via_regions (shapes (snd pf)) = None"
    using assms by (auto simp: via_regions_None)
  then show ?thesis
    using assms(3) by (auto simp: via_file_def Let_def split: prod.splits option.splits)
qed

lemma via_files_non_polygon:
  assumes "pf \<in> set pfs" and "sh \<in> set (shapes (snd pf))" and "shape_type sh \<noteq> ''polygon''"
  shows "fst (via_files images input_dir output_dir pfs st) \<noteq> Finished"
  using assms(1)
proof (induction pfs arbitrary: st)
  case Nil
  then show ?case by simp
next
  case (Cons x xs)
  obtain out st' where r: "via_file images input_dir output_dir x st = (out, st')"
    by (cases "via_file images input_dir output_dir x st") auto
  show ?case
  proof (cases out)
    case Finished
    then have "x \<noteq> pf"
      using via_file_non_polygon [OF assms(2,3), of images input_dir output_dir st] r by auto
    with Cons.prems have "pf \<in> set xs" by auto
    then show ?thesis using Cons.IH [of st'] Finished by (simp add: r)
  next
    case Returned1
    then show ?thesis by (simp add: r)
  next
    case (Raised e)
    then show ?thesis by (simp add: r)
  qed
qed

text \<open>
  C5. A corpus holds a file with a shape that is no polygon. Then labelme2via never
  falls off its end, and it writes no VIA document: a path that holds one afterwards
  held it before. When the loop reaches the file, the files before it converted and its
  image there, labelme2via prints the error and returns 1. The loop of labelmepoly2yolo
  meets the same shape after the shapes \<open>shs1\<close>: it prints the warning and goes on with
  the shapes \<open>shs2\<close>; the loop of labelmerect2yolo does so for a shape that is no
  rectangle.
\<close>

theorem non_polygon_aborts_labelme2via:
  assumes "pf \<in> set poly_file_list"
    and "sh \<in> set (shapes (snd pf))"
    and "shape_type sh \<noteq> ''polygon''"
  shows "fst (labelme2via images poly_file_list input_dir output_dir w) \<noteq> Finished
       \<and> (\<forall>p d. files (snd (labelme2via images poly_file_list input_dir output_dir w)) p = Some (ViaJson d)
                 \<longrightarrow> files w p = Some (ViaJson d))
       \<and> (\<forall>pre post annotations w1.
             poly_file_list = pre @ pf # post
           \<and> via_files images input_dir output_dir pre ([], w) = (Finished, annotations, w1)
           \<and> images (replace_str ''.json'' (fst (detect_image_format (snd pf) w1)) (fst pf)) \<noteq> None
           \<longrightarrow> labelme2via images poly_file_list input_dir output_dir w =
                 (Returned1,
                  print ''Error: shapes other than polygons not yet supported. Please modify labelme2via()''
                    (snd (detect_image_format (snd pf) w1))))
       \<and> for_each (poly_shape repr_float labels img_dims yolo_outfile) (shs1 @ sh # shs2) w0 =
           (case for_each (poly_shape repr_float labels img_dims yolo_outfile) shs1 w0 of
              (Finished, w1) \<Rightarrow>
                for_each (poly_shape repr_float labels img_dims yolo_outfile) shs2
                  (print ''Warning! The annotations contain shapes other than polygons'' w1)
            | (out, w1) \<Rightarrow> (out, w1))
       \<and> (\<forall>sh'. shape_type sh' \<noteq> ''rectangle'' \<longrightarrow>
             for_each (rect_shape repr_float labels img_dims yolo_outfile) (shs1 @ sh' # shs2) w0 =
               (case for_each (rect_shape repr_float labels img_dims yolo_outfile) shs1 w0 of
                  (Finished, w1) \<Rightarrow>
                    for_each (rect_shape repr_float labels img_dims yolo_outfile) shs2
                      (print ''Warning! The annotations contain shapes other than rectangles'' w1)
                | (out, w1) \<Rightarrow> (out, w1)))"
proof (intro conjI allI impI)
  obtain out annotations w' where r:
    "via_files images input_dir output_dir poly_file_list ([], w) = (out, annotations, w')"
    by (cases "via_files images input_dir output_dir poly_file_list ([], w)") auto
  have nf: "out \<noteq> Finished"
    using via_files_non_polygon [OF assms, of images input_dir output_dir "([], w)"] by (simp add: r)
  then have l: "labelme2via images poly_file_list input_dir output_dir w = (out, w')"
    by (cases out) (simp_all add: labelme2via_def r)
  show "fst (labelme2via images poly_file_list input_dir output_dir w) \<noteq> Finished"
    using nf by (simp add: l)
  fix p d
  assume "files (snd (labelme2via images poly_file_list input_dir output_dir w)) p = Some (ViaJson d)"
  then have "files w' p = Some (ViaJson d)" by (simp add: l)
  then show "files w p = Some (ViaJson d)"
    using files_via_files [of images input_dir output_dir poly_file_list "([], w)" p]
    by (auto simp: r)
next
  fix pre post annotations w1
  assume h: "poly_file_list = pre @ pf # post
           \<and> via_files images input_dir output_dir pre ([], w) = (Finished, annotations, w1)
           \<and> images (replace_str ''.json'' (fst (detect_image_format (snd pf) w1)) (fst pf)) \<noteq> None"
  have "via_file images input_dir output_dir pf (annotations, w1) =
           (Returned1, annotations,
            print ''Error: shapes other than polygons not yet supported. Please modify labelme2via()''
              (snd (detect_image_format (snd pf) w1)))"
    using via_file_non_polygon_reached [OF assms(2,3), of images "(annotations, w1)" input_dir output_dir] h
    by simp
  then show "labelme2via images poly_file_list input_dir output_dir w =
                 (Returned1,
                  print ''Error: shapes other than polygons not yet supported. Please modify labelme2via()''
                    (snd (detect_image_format (snd pf) w1)))"
    using h by (simp add: labelme2via_def via_files_append)
next
  show "for_each (poly_shape repr_float labels img_dims yolo_outfile) (shs1 @ sh # shs2) w0 =
           (case for_each (poly_shape repr_float labels img_dims yolo_outfile) shs1 w0 of
              (Finished, w1) \<Rightarrow>
                for_each (poly_shape repr_float labels img_dims yolo_outfile) shs2
                  (print ''Warning! The annotations contain shapes other than polygons'' w1)
            | (out, w1) \<Rightarrow> (out, w1))"
    using assms(3) by (simp add: for_each_append poly_shape_def split: prod.splits outcome.splits)
next
  fix sh' :: shape
  assume "shape_type sh' \<noteq> ''rectangle''"
  then show "for_each (rect_shape repr_float labels img_dims yolo_outfile) (shs1 @ sh' # shs2) w0 =
               (case for_each (rect_shape repr_float labels img_dims yolo_outfile) shs1 w0 of
                  (Finished, w1) \<Rightarrow>
                    for_each (rect_shape repr_float labels img_dims yolo_outfile) shs2
                      (print ''Warning! The annotations contain shapes other than rectangles'' w1)
                | (out, w1) \<Rightarrow> (out, w1))"
    by (simp add: for_each_append rect_shape_def split: prod.splits outcome.splits)
qed

theorem non_polygon_aborts_labelme2via_witness:
  "labelme2via
     (\<lambda>p. if p = ''in/a.jpg'' then Some \<lparr>st_size = 7, im_height = 100, im_width = 100\<rparr> else None)
     [(''in/a.json'',
       \<lparr>shapes = [\<lparr>label = ''dog'', points = [(0, 0), (1, 1)], shape_type = ''rectangle''\<rparr>],
        imagePath = Some (JString ''a.jpg''), imageWidth = 100, imageHeight = 100\<rparr>)]
     ''in/'' ''out/'' empty_world
   = (Returned1,
      print ''Error: shapes other than polygons not yet supported. Please modify labelme2via()''
        empty_world)
   \<and> for_each (poly_shape (\<lambda>q. []) [''dog''] (100, 100) ''out/a.txt'')
       ([] @ \<lparr>label = ''dog'', points = [(0, 0), (1, 1)], shape_type = ''rectangle''\<rparr> # [])
       empty_world
     = (Finished, print ''Warning! The annotations contain shapes other than polygons'' empty_world)
   \<and> for_each (rect_shape (\<lambda>q. []) [''dog''] (100, 100) ''out/a.txt'')
       ([] @ \<lparr>label = ''dog'', points = [(0, 0), (1, 0), (0, 1)], shape_type = ''polygon''\<rparr> # [])
       empty_world
     = (Finished, print ''Warning! The annotations contain shapes other than rectangles'' empty_world)"
proof -
  let ?images = "\<lambda>p. if p = ''in/a.jpg''
                     then Some \<lparr>st_size = 7, im_height = 100, im_width = 100\<rparr> else None"
  let ?sh = "\<lparr>label = ''dog'', points = [(0, 0), (1, 1)], shape_type = ''rectangle''\<rparr>"
  let ?tri = "\<lparr>label = ''dog'', points = [(0, 0), (1, 0), (0, 1)], shape_type = ''polygon''\<rparr>"
  let ?ann = "\<lparr>shapes = [?sh], imagePath = Some (JString ''a.jpg''),
                imageWidth = 100, imageHeight = 100\<rparr>"
  let ?pf = "(''in/a.json'', ?ann)"
  have h1: "?pf \<in> set [?pf]" by simp
  have h2: "?sh \<in> set (shapes (snd ?pf))" by simp
  have h3: "shape_type ?sh \<noteq> ''polygon''" by simp
  note t = non_polygon_aborts_labelme2via [OF h1 h2 h3, of ?images "''in/''" "''out/''" empty_world
      "\<lambda>q. []" "[''dog'']" "(100, 100)" "''out/a.txt''" "[]" "[]" empty_world]
  have fmt: "detect_image_format ?ann empty_world = (''.jpg'', empty_world)"
    by (simp add: detect_image_format_def split_last_def)
  have r: "replace_str ''.json'' ''.jpg'' ''in/a.json'' = ''in/a.jpg''"
    by (simp add: replace_str.simps)
  have reach: "[?pf] = [] @ ?pf # []
     \<and> via_files ?images ''in/'' ''out/'' [] ([], empty_world) = (Finished, [], empty_world)
     \<and> ?images (replace_str ''.json'' (fst (detect_image_format (snd ?pf) empty_world)) (fst ?pf)) \<noteq> None"
    by (simp add: fmt r)
  have a: "labelme2via ?images [?pf] ''in/'' ''out/'' empty_world
      = (Returned1,
         print ''Error: shapes other than polygons not yet supported. Please modify labelme2via()''
           (snd (detect_image_format (snd ?pf) empty_world)))"
    using t reach by blast
  have b: "for_each (poly_shape (\<lambda>q. []) [''dog''] (100, 100) ''out/a.txt'') ([] @ ?sh # []) empty_world
     = (Finished, print ''Warning! The annotations contain shapes other than polygons'' empty_world)"
    using t by simp
  have "shape_type ?tri \<noteq> ''rectangle''" by simp
  then have c: "for_each (rect_shape (\<lambda>q. []) [''dog''] (100, 100) ''out/a.txt'') ([] @ ?tri # []) empty_world
     = (Finished, print ''Warning! The annotations contain shapes other than rectangles'' empty_world)"
    using t by simp
  show ?thesis
    using a b c by (simp add: fmt)
qed

subsection \<open>Coordinate lists of unequal lengths\<close>

lemma labelme_shapes_mismatch:
  assumes "r \<in> set rs" and "length (all_points_x r) \<noteq> length (all_points_y r)"
  shows "\<exists>msg. labelme_shapes rs = Inl msg"
  using assms(1)
proof (induction rs)
  case Nil
  then show ?case by simp
next
  case (Cons x xs)
  show ?case
  proof (cases "x = r")
    case True
    then show ?thesis using assms(2) by simp
  next
    case False
    with Cons.prems have "r \<in> set xs" by simp
    then obtain msg where "labelme_shapes xs = Inl msg" using Cons.IH by blast
    then show ?thesis by simp
  qed
qed

lemma labelme_shapes_first_mismatch:
  assumes "\<forall>r' \<in> set rs1. sa_name r' = ''polygon'' \<and> length (all_points_x r') = length (all_points_y r')"
    and "sa_name r = ''polygon''"
    and "length (all_points_x r) \<noteq> length (all_points_y r)"
  shows "labelme_shapes (rs1 @ r # rs2) = Inl ''Error: annotation points mismatch''"
  using assms(1) by (induction rs1) (simp_all add: assms(2,3))

lemma via_record_mismatch:
  assumes "r \<in> set (regions rec)" and "length (all_points_x r) \<noteq> length (all_points_y r)"
  shows "fst (via_record images input_dir output_dir rec w) \<noteq> Finished
       \<and> files (snd (via_record images input_dir output_dir rec w)) = files w"
proof -
  obtain msg where "labelme_shapes (regions rec) = Inl msg"
    using labelme_shapes_mismatch [OF assms] by blast
  then show ?thesis
    by (simp add: via_record_def Let_def print_def split: option.splits)
qed

text \<open>
  C7, as the claim states it, fails on a region that is no polygon: the kind is checked
  first, so for a polyline with three x and two y coordinates the run ends with the
  error about shapes other than polygons, not with the one about the points.
\<close>

theorem via2labelme_mismatch_in_polyline:
  "length (all_points_x \<lparr>sa_name = ''polyline'', all_points_x = [1, 2, 3], all_points_y = [1, 2],
                           ra_label = ''cat''\<rparr>)
   \<noteq> length (all_points_y \<lparr>sa_name = ''polyline'', all_points_x = [1, 2, 3], all_points_y = [1, 2],
                           ra_label = ''cat''\<rparr>)
   \<and> via2labelme
       (\<lambda>p. if p = ''in/a.jpg'' then Some \<lparr>st_size = 7, im_height = 100, im_width = 100\<rparr> else None)
       [(''in/via_annotations.json'',
         [(''a.jpg7'',
           \<lparr>filename = ''a.jpg'',
            regions = [\<lparr>sa_name = ''polyline'', all_points_x = [1, 2, 3], all_points_y = [1, 2],
                        ra_label = ''cat''\<rparr>],
            via_size = 7\<rparr>)])]
       ''in/'' ''out/'' empty_world
     = (Returned1,
        print ''Error: shapes other than polygons not yet supported. Please modify via2labelme()''
          empty_world)"
  by (simp add: via2labelme_def via_record_def path_join_def)

text \<open>
  C7, amended. The one VIA document holds an annotation with a region whose lists of x
  and y coordinates differ in length. Then via2labelme never falls off its end, and the
  files it leaves are those the annotations before that one left: nothing is written for
  it. When the annotations before it converted, its image can be read, the region is a
  polygon and the regions before it in the annotation are polygons with lists of equal
  length, via2labelme prints the points mismatch error and returns 1.
\<close>

theorem via2labelme_points_mismatch:
  assumes "map snd via_annotations = pre @ rec # post"
    and "r \<in> set (regions rec)"
    and "length (all_points_x r) \<noteq> length (all_points_y r)"
  shows "fst (via2labelme images [(path, via_annotations)] input_dir output_dir w) \<noteq> Finished
       \<and> files (snd (via2labelme images [(path, via_annotations)] input_dir output_dir w))
         = files (snd (for_each (via_record images input_dir output_dir) pre w))
       \<and> (\<forall>w1 rs1 rs2.
             for_each (via_record images input_dir output_dir) pre w = (Finished, w1)
           \<and> images (path_join input_dir (filename rec)) \<noteq> None
           \<and> regions rec = rs1 @ r # rs2
           \<and> list_all (\<lambda>r'. sa_name r' = ''polygon''
                              \<and> length (all_points_x r') = length (all_points_y r')) rs1
           \<and> sa_name r = ''polygon''
           \<longrightarrow> via2labelme images [(path, via_annotations)] input_dir output_dir w
               = (Returned1, print ''Error: annotation points mismatch'' w1))"
proof -
  let ?body = "via_record images input_dir output_dir"
  have v: "via2labelme images [(path, via_annotations)] input_dir output_dir w
           = for_each ?body (pre @ rec # post) w"
    by (simp add: via2labelme_def assms(1))
  obtain out1 w1 where p: "for_each ?body pre w = (out1, w1)"
    by (cases "for_each ?body pre w") auto
  obtain out2 w2 where q: "?body rec w1 = (out2, w2)"
    by (cases "?body rec w1") auto
  have bad: "out2 \<noteq> Finished" "files w2 = files w1"
    using via_record_mismatch [OF assms(2,3), of images input_dir output_dir w1] by (simp_all add: q)
  have stop: "for_each ?body (rec # post) w1 = (out2, w2)"
    using bad(1) by (cases out2) (simp_all add: q)
  have 1: "fst (for_each ?body (pre @ rec # post) w) \<noteq> Finished"
    using bad(1) by (cases out1) (simp_all add: for_each_append p stop del: for_each.simps)
  have 2: "files (snd (for_each ?body (pre @ rec # post) w)) = files (snd (for_each ?body pre w))"
    using bad(2) by (cases out1) (simp_all add: for_each_append p stop del: for_each.simps)
  have 3: "for_each ?body (pre @ rec # post) w = (Returned1, print ''Error: annotation points mismatch'' w1')"
    if h: "for_each ?body pre w = (Finished, w1')
           \<and> images (path_join input_dir (filename rec)) \<noteq> None
           \<and> regions rec = rs1 @ r # rs2
           \<and> list_all (\<lambda>r'. sa_name r' = ''polygon''
                              \<and> length (all_points_x r') = length (all_points_y r')) rs1
           \<and> sa_name r = ''polygon''" for w1' rs1 rs2
  proof -
    have "labelme_shapes (regions rec) = Inl ''Error: annotation points mismatch''"
      using h labelme_shapes_first_mismatch [of rs1 r rs2] assms(3)
      by (simp add: list_all_iff)
    then have "?body rec w1' = (Returned1, print ''Error: annotation points mismatch'' w1')"
      using h by (auto simp: via_record_def Let_def split: option.splits)
    then show ?thesis
      using h by (simp add: for_each_append)
  qed
  show ?thesis
    unfolding v using 1 2 3 by blast
qed

theorem via2labelme_points_mismatch_witness:
  "via2labelme
       (\<lambda>p. if p = ''in/a.jpg'' then Some \<lparr>st_size = 7, im_height = 100, im_width = 100\<rparr> else None)
       [(''in/via_annotations.json'',
         [(''a.jpg7'',
           \<lparr>filename = ''a.jpg'',
            regions = [\<lparr>sa_name = ''polygon'', all_points_x = [1, 2, 3], all_points_y = [1, 2],
                        ra_label = ''cat''\<rparr>],
            via_size = 7\<rparr>)])]
       ''in/'' ''out/'' empty_world
     = (Returned1, print ''Error: annotation points mismatch'' empty_world)"
proof -
  let ?images = "\<lambda>p. if p = ''in/a.jpg''
                     then Some \<lparr>st_size = 7, im_height = 100, im_width = 100\<rparr> else None"
  let ?r = "\<lparr>sa_name = ''polygon'', all_points_x = [1, 2, 3], all_points_y = [1, 2], ra_label = ''cat''\<rparr>"
  let ?rec = "\<lparr>filename = ''a.jpg'', regions = [?r], via_size = 7\<rparr>"
  have h1: "map snd [(''a.jpg7'', ?rec)] = [] @ ?rec # []" by simp
  have h2: "?r \<in> set (regions ?rec)" by simp
  have h3: "length (all_points_x ?r) \<noteq> length (all_points_y ?r)" by simp
  note t = via2labelme_points_mismatch [OF h1 h2 h3, of ?images "''in/via_annotations.json''"
      "''in/''" "''out/''" empty_world]
  have reach: "for_each (via_record ?images ''in/'' ''out/'') [] empty_world = (Finished, empty_world)
     \<and> ?images (path_join ''in/'' (filename ?rec)) \<noteq> None
     \<and> regions ?rec = [] @ ?r # []
     \<and> list_all (\<lambda>r'. sa_name r' = ''polygon''
                        \<and> length (all_points_x r') = length (all_points_y r')) []
     \<and> sa_name ?r = ''polygon''"
    by (simp add: path_join_def)
  show ?thesis
    using t reach by blast
qed

subsection \<open>From Labelme to VIA and back\<close>

paragraph \<open>The dict\<close>

lemma dict_set_fresh: "k \<notin> fst ` set d \<Longrightarrow> dict_set k v d = d @ [(k, v)]"
  by (induction d) auto

lemma foldl_dict_set_distinct:
  assumes "distinct (map key xs)" and "key ` set xs \<inter> fst ` set d = {}"
  shows "foldl (\<lambda>d x. dict_set (key x) (val x) d) d xs = d @ map (\<lambda>x. (key x, val x)) xs"
  using assms
proof (induction xs arbitrary: d)
  case Nil
  show ?case by simp
next
  case (Cons x xs)
  have fresh: "key x \<notin> fst ` set d" using Cons.prems(2) by auto
  have "key ` set xs \<inter> fst ` set (d @ [(key x, val x)]) = {}"
    using Cons.prems by auto
  then have "foldl (\<lambda>d x. dict_set (key x) (val x) d) (d @ [(key x, val x)]) xs
             = (d @ [(key x, val x)]) @ map (\<lambda>x. (key x, val x)) xs"
    using Cons.IH [of "d @ [(key x, val x)]"] Cons.prems(1) by simp
  then show ?case by (simp add: dict_set_fresh [OF fresh])
qed

paragraph \<open>The regions of polygons\<close>

lemma via_regions_polygons:
  "\<forall>sh \<in> set shs. shape_type sh = ''polygon'' \<Longrightarrow> via_regions shs = Some (map via_region shs)"
  by (induction shs) auto

lemma py_int_of_int: "py_int (of_int z) = z"
  by (simp add: py_int_def)

lemma points_back:
  "map (\<lambda>i. (of_int (py_int (map (\<lambda>point. of_int (py_int (fst point))) pts ! i)) :: rat,
              of_int (py_int (map (\<lambda>point. of_int (py_int (snd point))) pts ! i)) :: rat))
     [0..<length pts]
   = map (\<lambda>p. (of_int (py_int (fst p)), of_int (py_int (snd p)))) pts"
  by (rule nth_equalityI) (simp_all add: py_int_of_int)

lemma labelme_shapes_via_regions:
  "\<forall>sh \<in> set shs. shape_type sh = ''polygon'' \<Longrightarrow>
     labelme_shapes (map via_region shs) = Inr (map truncated shs)"
proof (induction shs)
  case Nil
  show ?case by simp
next
  case (Cons sh shs)
  have t: "\<lparr>label = label sh,
            points = map (\<lambda>p. (of_int (py_int (fst p)), of_int (py_int (snd p)))) (points sh),
            shape_type = ''polygon''\<rparr> = truncated sh"
    using Cons.prems by (cases sh) (simp add: truncated_def)
  show ?case
    using Cons by (simp add: via_region_def points_back t)
qed

paragraph \<open>The first run\<close>

lemma fst_detect_image_format: "fst (detect_image_format a w) = image_format_of a"
  by (auto simp: detect_image_format_def image_format_of_def split: option.splits jvalue.splits)

lemma via_file_polygons:
  assumes "\<forall>sh \<in> set (shapes (snd pf)). shape_type sh = ''polygon''"
    and "images (stat_path_for pf) \<noteq> None"
    and "images (path_join input_dir (image_name_for pf)) \<noteq> None"
    and "path_join input_dir (image_name_for pf) \<noteq> path_join via_dir (image_name_for pf)"
  shows "\<exists>w'. via_file images input_dir via_dir pf (annotations, w) =
           (Finished, dict_set (via_key images pf) (via_entry images pf) annotations, w')
         \<and> files w' = (files w)(path_join via_dir (image_name_for pf) \<mapsto>
                                    ImageCopy (path_join input_dir (image_name_for pf)))"
proof -
  obtain fmt w1 where d: "detect_image_format (snd pf) w = (fmt, w1)"
    by (cases "detect_image_format (snd pf) w") auto
  have fmt: "fmt = image_format_of (snd pf)"
    using fst_detect_image_format [of "snd pf" w] by (simp add: d)
  have f1: "files w1 = files w"
    using files_detect_image_format [of "snd pf" w] by (simp add: d)
  obtain im where im: "images (replace_str ''.json'' (image_format_of (snd pf)) (fst pf)) = Some im"
    using assms(2) by (auto simp: stat_path_for_def)
  have name: "image_name_of (fst pf) (image_format_of (snd pf)) = image_name_for pf"
    by (simp add: image_name_for_def)
  have size: "st_size im = img_size_for images pf"
    by (simp add: img_size_for_def stat_path_for_def im)
  show ?thesis
    using assms(3,4)
    by (simp add: via_file_def d fmt im via_regions_polygons [OF assms(1)] Let_def name size
        copyfile_def via_key_def via_entry_def f1)
qed

lemma via_files_polygons:
  assumes "\<forall>pf \<in> set pfs. (\<forall>sh \<in> set (shapes (snd pf)). shape_type sh = ''polygon'')
             \<and> images (stat_path_for pf) \<noteq> None
             \<and> images (path_join input_dir (image_name_for pf)) \<noteq> None
             \<and> path_join input_dir (image_name_for pf) \<noteq> path_join via_dir (image_name_for pf)"
  shows "\<exists>w'. via_files images input_dir via_dir pfs (annotations, w) =
           (Finished,
            foldl (\<lambda>d pf. dict_set (via_key images pf) (via_entry images pf) d) annotations pfs, w')
         \<and> files w' =
             foldl (\<lambda>f pf. f(path_join via_dir (image_name_for pf) \<mapsto>
                              ImageCopy (path_join input_dir (image_name_for pf)))) (files w) pfs"
  using assms
proof (induction pfs arbitrary: annotations w)
  case Nil
  show ?case by simp
next
  case (Cons pf pfs)
  have "\<exists>w1. via_file images input_dir via_dir pf (annotations, w) =
       (Finished, dict_set (via_key images pf) (via_entry images pf) annotations, w1)
     \<and> files w1 = (files w)(path_join via_dir (image_name_for pf) \<mapsto>
                            ImageCopy (path_join input_dir (image_name_for pf)))"
    by (rule via_file_polygons) (use Cons.prems in simp_all)
  then obtain w1 where 1:
    "via_file images input_dir via_dir pf (annotations, w) =
       (Finished, dict_set (via_key images pf) (via_entry images pf) annotations, w1)"
    "files w1 = (files w)(path_join via_dir (image_name_for pf) \<mapsto>
                            ImageCopy (path_join input_dir (image_name_for pf)))"
    by blast
  have "\<exists>w'. via_files images input_dir via_dir pfs
       (dict_set (via_key images pf) (via_entry images pf) annotations, w1) =
       (Finished,
        foldl (\<lambda>d pf. dict_set (via_key images pf) (via_entry images pf) d)
          (dict_set (via_key images pf) (via_entry images pf) annotations) pfs, w')
     \<and> files w' =
       foldl (\<lambda>f pf. f(path_join via_dir (image_name_for pf) \<mapsto>
                        ImageCopy (path_join input_dir (image_name_for pf)))) (files w1) pfs"
    by (rule Cons.IH) (use Cons.prems in simp)
  then obtain w' where 2:
    "via_files images input_dir via_dir pfs
       (dict_set (via_key images pf) (via_entry images pf) annotations, w1) =
       (Finished,
        foldl (\<lambda>d pf. dict_set (via_key images pf) (via_entry images pf) d)
          (dict_set (via_key images pf) (via_entry images pf) annotations) pfs, w')"
    "files w' =
       foldl (\<lambda>f pf. f(path_join via_dir (image_name_for pf) \<mapsto>
                        ImageCopy (path_join input_dir (image_name_for pf)))) (files w1) pfs"
    by blast
  show ?case
    by (rule exI [of _ w'])
      (simp only: via_files.simps 1 2 foldl_Cons prod.case outcome.case simp_thms)
qed

lemma copies_lookup:
  "(p \<notin> dst ` set pfs \<longrightarrow> foldl (\<lambda>f pf. f(dst pf \<mapsto> ImageCopy (src pf))) f0 pfs p = f0 p)
   \<and> (p \<in> dst ` set pfs \<longrightarrow>
        (\<exists>pf \<in> set pfs. foldl (\<lambda>f pf. f(dst pf \<mapsto> ImageCopy (src pf))) f0 pfs p
                          = Some (ImageCopy (src pf))))"
proof (induction pfs arbitrary: f0)
  case Nil
  show ?case by simp
next
  case (Cons x xs)
  show ?case
    using Cons.IH [of "f0(dst x \<mapsto> ImageCopy (src x))"] by auto
qed

paragraph \<open>The second run\<close>

lemma via_record_polygons:
  assumes "\<forall>sh \<in> set (shapes (snd pf)). shape_type sh = ''polygon''"
    and "images2 (path_join via_dir (image_name_for pf)) = Some img"
    and "path_join via_dir (image_name_for pf) \<noteq> path_join output_dir (image_name_for pf)"
  shows "via_record images2 via_dir output_dir (via_entry images pf) w =
           (Finished,
            w\<lparr>files := (files w)
                (path_join output_dir (lme_ann_name_of (image_name_for pf)) \<mapsto>
                   LabelmeJson \<lparr>shapes = map truncated (shapes (snd pf)),
                                imagePath = Some (JString (image_name_for pf)),
                                imageWidth = of_nat (im_width img),
                                imageHeight = of_nat (im_height img)\<rparr>,
                 path_join output_dir (image_name_for pf) \<mapsto>
                   ImageCopy (path_join via_dir (image_name_for pf)))\<rparr>)"
  using assms(2,3)
  by (simp add: via_record_def via_entry_def labelme_shapes_via_regions [OF assms(1)] Let_def
      copyfile_def)

lemma via_records_polygons:
  assumes "\<forall>pf \<in> set pfs. (\<forall>sh \<in> set (shapes (snd pf)). shape_type sh = ''polygon'')
             \<and> images2 (path_join via_dir (image_name_for pf)) \<noteq> None
             \<and> path_join via_dir (image_name_for pf) \<noteq> path_join output_dir (image_name_for pf)"
    and "distinct (map (\<lambda>pf. path_join output_dir (lme_ann_name_of (image_name_for pf))) pfs)"
    and "\<forall>pf \<in> set pfs. \<forall>pf' \<in> set pfs.
           path_join output_dir (lme_ann_name_of (image_name_for pf))
           \<noteq> path_join output_dir (image_name_for pf')"
  shows "\<exists>w'. for_each (via_record images2 via_dir output_dir) (map (via_entry images) pfs) w
              = (Finished, w')
         \<and> (\<forall>p. p \<notin> (\<lambda>pf. path_join output_dir (lme_ann_name_of (image_name_for pf))) ` set pfs
                \<and> p \<notin> (\<lambda>pf. path_join output_dir (image_name_for pf)) ` set pfs
                \<longrightarrow> files w' p = files w p)
         \<and> (\<forall>pf \<in> set pfs. \<exists>doc.
                files w' (path_join output_dir (lme_ann_name_of (image_name_for pf)))
                  = Some (LabelmeJson doc)
              \<and> shapes doc = map truncated (shapes (snd pf)))"
  using assms
proof (induction pfs arbitrary: w)
  case Nil
  show ?case by simp
next
  case (Cons x xs)
  let ?out = "\<lambda>pf. path_join output_dir (lme_ann_name_of (image_name_for pf))"
  let ?cp = "\<lambda>pf. path_join output_dir (image_name_for pf)"
  obtain img where img: "images2 (path_join via_dir (image_name_for x)) = Some img"
    using Cons.prems(1) by auto
  define doc where "doc = \<lparr>shapes = map truncated (shapes (snd x)),
                                imagePath = Some (JString (image_name_for x)),
                                imageWidth = of_nat (im_width img),
                                imageHeight = of_nat (im_height img)\<rparr>"
  define w1 where "w1 = w\<lparr>files := (files w)
                (?out x \<mapsto> LabelmeJson doc,
                 ?cp x \<mapsto> ImageCopy (path_join via_dir (image_name_for x)))\<rparr>"
  have step: "via_record images2 via_dir output_dir (via_entry images x) w = (Finished, w1)"
    using via_record_polygons [of x images2 via_dir img output_dir images w] Cons.prems(1) img
    by (simp add: w1_def doc_def)
  have ne: "?out x \<noteq> ?cp x"
    using Cons.prems(3) by simp
  have at_x: "files w1 (?out x) = Some (LabelmeJson doc)"
    using ne by (simp add: w1_def)
  have "\<exists>w'. for_each (via_record images2 via_dir output_dir) (map (via_entry images) xs) w1
              = (Finished, w')
         \<and> (\<forall>p. p \<notin> ?out ` set xs \<and> p \<notin> ?cp ` set xs \<longrightarrow> files w' p = files w1 p)
         \<and> (\<forall>pf \<in> set xs. \<exists>doc. files w' (?out pf) = Some (LabelmeJson doc)
                        \<and> shapes doc = map truncated (shapes (snd pf)))"
    by (rule Cons.IH) (use Cons.prems in simp_all)
  then obtain w' where rest:
    "for_each (via_record images2 via_dir output_dir) (map (via_entry images) xs) w1 = (Finished, w')"
    "\<forall>p. p \<notin> ?out ` set xs \<and> p \<notin> ?cp ` set xs \<longrightarrow> files w' p = files w1 p"
    "\<forall>pf \<in> set xs. \<exists>doc. files w' (?out pf) = Some (LabelmeJson doc)
                        \<and> shapes doc = map truncated (shapes (snd pf))"
    by blast
  have fresh: "?out x \<notin> ?out ` set xs" "?out x \<notin> ?cp ` set xs"
    using Cons.prems(2,3) by auto
  have keep: "files w' (?out x) = Some (LabelmeJson doc)"
    using rest(2) fresh at_x by simp
  have frame: "\<forall>p. p \<notin> ?out ` set (x # xs) \<and> p \<notin> ?cp ` set (x # xs) \<longrightarrow> files w' p = files w p"
    using rest(2) by (simp add: w1_def)
  have all: "\<forall>pf \<in> set (x # xs). \<exists>doc. files w' (?out pf) = Some (LabelmeJson doc)
                        \<and> shapes doc = map truncated (shapes (snd pf))"
    using keep rest(3) by (auto simp: doc_def)
  show ?case
    using step rest(1) frame all by (simp del: set_simps)
qed

paragraph \<open>The listing of the second run\<close>

lemma path_join_plain:
  assumes "plain_dir d" and "CHR ''/'' \<notin> set n"
  shows "path_join d n = d @ n"
proof -
  have "d \<noteq> []" "last d = CHR ''/''" using assms(1) by (simp_all add: plain_dir_def)
  moreover have "n \<noteq> [] \<longrightarrow> hd n \<noteq> CHR ''/''" using assms(2) by (cases n) auto
  ultimately show ?thesis by (auto simp: path_join_def)
qed

lemma listed_json_via_annotations: "listed_json d (d @ ''via_annotations.json'')"
  by (simp add: listed_json_def)

lemma single_listing:
  assumes "distinct (map fst l)" and "fst ` set l = {a}"
  shows "\<exists>d. l = [(a, d)]"
proof (cases l)
  case Nil
  then show ?thesis using assms(2) by simp
next
  case (Cons x xs)
  have x: "fst x = a" using assms(2) Cons by auto
  have "xs = []"
  proof (rule ccontr)
    assume "xs \<noteq> []"
    then obtain y ys where ys: "xs = y # ys" by (cases xs) auto
    then have "fst y = a" using assms(2) Cons by auto
    then show False using assms(1) Cons ys x by simp
  qed
  then show ?thesis using Cons x by (cases x) auto
qed

text \<open>
  C3, as the claim states it, fails when two files get the same key. The files
  \<open>in/a.json.json\<close> and \<open>in/a.jpg.json\<close> both name the image \<open>a.jpg.jpg\<close>, so both
  get the key \<open>a.jpg.jpg7\<close> and the entry of the second replaces the entry of the first.
  All shapes are polygons, the second run lists the one document the first run wrote,
  and both runs end normally, but the only Labelme document the round trip writes holds
  the polygon \<open>dog\<close> of the second file; the polygon \<open>cat\<close> of the first file is in no
  document.
\<close>

theorem round_trip_key_collision:
  "lists_json_of
     (\<lambda>p. if p = ''in/a.jpg.jpg'' then Some \<lparr>st_size = 7, im_height = 100, im_width = 100\<rparr> else None)
     (snd (labelme2via
       (\<lambda>p. if p = ''in/a.jpg.jpg'' then Some \<lparr>st_size = 7, im_height = 100, im_width = 100\<rparr> else None)
       [(''in/a.json.json'',
         \<lparr>shapes = [\<lparr>label = ''cat'', points = [(3 / 2, 2), (3, 4), (5, 6)], shape_type = ''polygon''\<rparr>],
          imagePath = Some (JString ''a.jpg''), imageWidth = 100, imageHeight = 100\<rparr>),
        (''in/a.jpg.json'',
         \<lparr>shapes = [\<lparr>label = ''dog'', points = [(1, 1), (8, 1), (8, 9)], shape_type = ''polygon''\<rparr>],
          imagePath = Some (JString ''a.jpg''), imageWidth = 100, imageHeight = 100\<rparr>)]
       ''in/'' ''via/'' empty_world))
     ''via/''
     [(''via/via_annotations.json'',
       [(''a.jpg.jpg7'',
         \<lparr>filename = ''a.jpg.jpg'',
          regions = [\<lparr>sa_name = ''polygon'', all_points_x = [1, 8, 8],
                      all_points_y = [1, 1, 9], ra_label = ''dog''\<rparr>],
          via_size = 7\<rparr>)])]
   \<and> round_trip
     (\<lambda>p. if p = ''in/a.jpg.jpg'' then Some \<lparr>st_size = 7, im_height = 100, im_width = 100\<rparr> else None)
     [(''in/a.json.json'',
       \<lparr>shapes = [\<lparr>label = ''cat'', points = [(3 / 2, 2), (3, 4), (5, 6)], shape_type = ''polygon''\<rparr>],
        imagePath = Some (JString ''a.jpg''), imageWidth = 100, imageHeight = 100\<rparr>),
      (''in/a.jpg.json'',
       \<lparr>shapes = [\<lparr>label = ''dog'', points = [(1, 1), (8, 1), (8, 9)], shape_type = ''polygon''\<rparr>],
        imagePath = Some (JString ''a.jpg''), imageWidth = 100, imageHeight = 100\<rparr>)]
     ''in/'' ''via/'' ''out/''
     [(''via/via_annotations.json'',
       [(''a.jpg.jpg7'',
         \<lparr>filename = ''a.jpg.jpg'',
          regions = [\<lparr>sa_name = ''polygon'', all_points_x = [1, 8, 8],
                      all_points_y = [1, 1, 9], ra_label = ''dog''\<rparr>],
          via_size = 7\<rparr>)])]
     empty_world
   = (Finished,
      \<lparr>files = (\<lambda>p. None)
         (''via/a.jpg.jpg'' \<mapsto> ImageCopy ''in/a.jpg.jpg'',
          ''via/via_annotations.json'' \<mapsto>
             ViaJson [(''a.jpg.jpg7'',
                       \<lparr>filename = ''a.jpg.jpg'',
                        regions = [\<lparr>sa_name = ''polygon'', all_points_x = [1, 8, 8],
                                    all_points_y = [1, 1, 9], ra_label = ''dog''\<rparr>],
                        via_size = 7\<rparr>)],
          ''out/a.json.json'' \<mapsto>
             LabelmeJson \<lparr>shapes = [\<lparr>label = ''dog'', points = [(1, 1), (8, 1), (8, 9)],
                                      shape_type = ''polygon''\<rparr>],
                          imagePath = Some (JString ''a.jpg.jpg''), imageWidth = 100,
                          imageHeight = 100\<rparr>,
          ''out/a.jpg.jpg'' \<mapsto> ImageCopy ''via/a.jpg.jpg''),
       printed = []\<rparr>)"
proof -
  let ?images = "\<lambda>p. if p = ''in/a.jpg.jpg''
                     then Some \<lparr>st_size = 7, im_height = 100, im_width = 100\<rparr> else None"
  let ?doc = "[(''a.jpg.jpg7'',
         \<lparr>filename = ''a.jpg.jpg'',
          regions = [\<lparr>sa_name = ''polygon'', all_points_x = [1, 8, 8],
                      all_points_y = [1, 1, 9], ra_label = ''dog''\<rparr>],
          via_size = 7\<rparr>)]"
  let ?corpus = "[(''in/a.json.json'',
       \<lparr>shapes = [\<lparr>label = ''cat'', points = [(3 / 2, 2), (3, 4), (5, 6)], shape_type = ''polygon''\<rparr>],
        imagePath = Some (JString ''a.jpg''), imageWidth = 100, imageHeight = 100\<rparr>),
      (''in/a.jpg.json'',
       \<lparr>shapes = [\<lparr>label = ''dog'', points = [(1, 1), (8, 1), (8, 9)], shape_type = ''polygon''\<rparr>],
        imagePath = Some (JString ''a.jpg''), imageWidth = 100, imageHeight = 100\<rparr>)]"
  have s1: "split_last CHR ''.'' ''a.jpg'' = ''jpg''"
    by (simp add: split_last_def)
  have s2: "split_last CHR ''/'' ''in/a.json.json'' = ''a.json.json''"
      "split_last CHR ''/'' ''in/a.jpg.json'' = ''a.jpg.json''"
    by (simp_all add: split_last_def)
  have s3: "split_last CHR ''.'' ''a.jpg.jpg'' = ''jpg''"
    by (simp add: split_last_def)
  have r1: "replace_str ''.json'' ''.jpg'' ''in/a.json.json'' = ''in/a.jpg.jpg''"
      "replace_str ''.json'' ''.jpg'' ''in/a.jpg.json'' = ''in/a.jpg.jpg''"
      "replace_str ''.json'' ''.jpg'' ''a.json.json'' = ''a.jpg.jpg''"
      "replace_str ''.json'' ''.jpg'' ''a.jpg.json'' = ''a.jpg.jpg''"
      "replace_str ''jpg'' ''json'' ''a.jpg.jpg'' = ''a.json.json''"
    by (simp_all add: replace_str.simps)
  have n: "str_nat 7 = ''7''"
    by (simp add: str_nat.simps digit_char_def)
  have fl: "\<lfloor>3 / 2 :: rat\<rfloor> = 1"
    by (simp add: floor_eq_iff)
  have run1: "labelme2via ?images ?corpus ''in/'' ''via/'' empty_world =
      (Finished,
       \<lparr>files = (\<lambda>p. None)(''via/a.jpg.jpg'' \<mapsto> ImageCopy ''in/a.jpg.jpg'',
                              ''via/via_annotations.json'' \<mapsto> ViaJson ?doc),
        printed = []\<rparr>)"
    by (simp add: labelme2via_def via_file_def detect_image_format_def s1 s2 r1 n
        image_name_of_def via_region_def py_int_def fl copyfile_def path_join_def empty_world_def
        Let_def)
  have not_listed: "\<not> listed_json ''via/'' ''via/a.jpg.jpg''" "\<not> listed_json ''via/'' ''in/a.jpg.jpg''"
    by (simp_all add: listed_json_def)
  have listed: "listed_json ''via/'' ''via/via_annotations.json''"
    by (simp add: listed_json_def)
  have listing: "lists_json_of ?images
      (snd (labelme2via ?images ?corpus ''in/'' ''via/'' empty_world)) ''via/''
      [(''via/via_annotations.json'', ?doc)]"
    unfolding run1 lists_json_of_def using not_listed listed by auto
  have run2: "round_trip ?images ?corpus ''in/'' ''via/'' ''out/''
      [(''via/via_annotations.json'', ?doc)] empty_world
   = (Finished,
      \<lparr>files = (\<lambda>p. None)
         (''via/a.jpg.jpg'' \<mapsto> ImageCopy ''in/a.jpg.jpg'',
          ''via/via_annotations.json'' \<mapsto> ViaJson ?doc,
          ''out/a.json.json'' \<mapsto>
             LabelmeJson \<lparr>shapes = [\<lparr>label = ''dog'', points = [(1, 1), (8, 1), (8, 9)],
                                      shape_type = ''polygon''\<rparr>],
                          imagePath = Some (JString ''a.jpg.jpg''), imageWidth = 100,
                          imageHeight = 100\<rparr>,
          ''out/a.jpg.jpg'' \<mapsto> ImageCopy ''via/a.jpg.jpg''),
       printed = []\<rparr>)"
    unfolding round_trip_def run1
    by (simp add: via2labelme_def via_record_def s3 r1 py_int_def copyfile_def path_join_def
        lme_ann_name_of_def disk_images_def Let_def)
  show ?thesis
    using listing run2 by (rule conjI)
qed

text \<open>
  C3, amended. All shapes of the corpus are polygons. The three directories are plain,
  and the intermediate directory is neither the input nor the output directory. Every
  file has its image on disk, where labelme2via takes its size and where it copies it
  from, under a plain name that \<open>glob\<close> does not list as a JSON file. Before the first run
  the intermediate directory holds no file that \<open>glob\<close> lists as a JSON file, and the
  second run reads what \<open>glob\<close> lists there after the first run. The keys of the files,
  image name and image size, differ pairwise, and so do the paths of the Labelme
  documents the second run writes, none of which is the path of a copied image. Then
  both runs end normally, and for every file of the corpus the second run leaves a
  Labelme document whose shapes are the shapes of the file, in order, each with its
  label and kind and with every coordinate cut to an integer.
\<close>

theorem round_trip_preserves_polygons:
  assumes dirs: "plain_dir input_dir \<and> plain_dir via_dir \<and> plain_dir output_dir
                 \<and> input_dir \<noteq> via_dir \<and> via_dir \<noteq> output_dir"
    and ready: "\<forall>pf \<in> set poly_file_list.
        (\<forall>sh \<in> set (shapes (snd pf)). shape_type sh = ''polygon'')
      \<and> plain_name (image_name_for pf)
      \<and> \<not> listed_json via_dir (path_join via_dir (image_name_for pf))
      \<and> images (stat_path_for pf) \<noteq> None
      \<and> images (path_join input_dir (image_name_for pf)) \<noteq> None"
    and fresh: "\<forall>p. listed_json via_dir p \<longrightarrow> files w p = None \<and> images p = None"
    and listing: "lists_json_of images
                    (snd (labelme2via images poly_file_list input_dir via_dir w)) via_dir poly_file"
    and keys: "distinct (map (via_key images) poly_file_list)"
    and names: "distinct (map (\<lambda>pf. path_join output_dir (lme_ann_name_of (image_name_for pf)))
                          poly_file_list)"
    and apart: "\<forall>pf \<in> set poly_file_list. \<forall>pf' \<in> set poly_file_list.
        path_join output_dir (lme_ann_name_of (image_name_for pf))
        \<noteq> path_join output_dir (image_name_for pf')"
  shows "fst (round_trip images poly_file_list input_dir via_dir output_dir poly_file w) = Finished
       \<and> (\<forall>pf \<in> set poly_file_list. \<exists>doc.
             files (snd (round_trip images poly_file_list input_dir via_dir output_dir poly_file w))
               (path_join output_dir (lme_ann_name_of (image_name_for pf))) = Some (LabelmeJson doc)
           \<and> shapes doc = map truncated (shapes (snd pf)))"
proof -
  let ?json = "path_join via_dir ''via_annotations.json''"
  let ?dst = "\<lambda>pf. path_join via_dir (image_name_for pf)"
  let ?src = "\<lambda>pf. path_join input_dir (image_name_for pf)"
  let ?doc = "map (\<lambda>pf. (via_key images pf, via_entry images pf)) poly_file_list"
  have json: "?json = via_dir @ ''via_annotations.json''"
    using dirs by (simp add: path_join_plain)
  have listed: "listed_json via_dir ?json"
    by (simp only: json listed_json_via_annotations)
  have joined: "?src pf = input_dir @ image_name_for pf" "?dst pf = via_dir @ image_name_for pf"
      "path_join output_dir (image_name_for pf) = output_dir @ image_name_for pf"
    if "pf \<in> set poly_file_list" for pf
    using dirs ready that by (simp_all add: path_join_plain plain_name_def)
  have old_ready: "\<forall>pf \<in> set poly_file_list.
        (\<forall>sh \<in> set (shapes (snd pf)). shape_type sh = ''polygon'')
      \<and> images (stat_path_for pf) \<noteq> None
      \<and> images (?src pf) \<noteq> None
      \<and> ?src pf \<noteq> ?dst pf"
    using ready dirs joined by simp
  have "\<exists>w'. via_files images input_dir via_dir poly_file_list ([], w) =
           (Finished,
            foldl (\<lambda>d pf. dict_set (via_key images pf) (via_entry images pf) d) [] poly_file_list, w')
         \<and> files w' = foldl (\<lambda>f pf. f(?dst pf \<mapsto> ImageCopy (?src pf))) (files w) poly_file_list"
    by (rule via_files_polygons) (rule old_ready)
  then obtain w' where first:
    "via_files images input_dir via_dir poly_file_list ([], w) =
       (Finished,
        foldl (\<lambda>d pf. dict_set (via_key images pf) (via_entry images pf) d) [] poly_file_list, w')"
    "files w' = foldl (\<lambda>f pf. f(?dst pf \<mapsto> ImageCopy (?src pf))) (files w) poly_file_list"
    by blast
  have dict: "foldl (\<lambda>d pf. dict_set (via_key images pf) (via_entry images pf) d) [] poly_file_list
              = ?doc"
    using foldl_dict_set_distinct [of "via_key images" poly_file_list "[]" "via_entry images"] keys
    by simp
  define w1 where "w1 = w'\<lparr>files := (files w')(?json \<mapsto> ViaJson ?doc)\<rparr>"
  have run1: "labelme2via images poly_file_list input_dir via_dir w = (Finished, w1)"
    by (simp add: labelme2via_def first(1) dict w1_def)
  have copies: "files w' p = files w p" if "p \<notin> ?dst ` set poly_file_list" for p
    using copies_lookup [of p ?dst poly_file_list ?src "files w"] that by (simp add: first(2))
  have only: "listed_json via_dir p \<and> (files w1 p \<noteq> None \<or> images p \<noteq> None) \<longleftrightarrow> p = ?json" for p
  proof
    assume p: "listed_json via_dir p \<and> (files w1 p \<noteq> None \<or> images p \<noteq> None)"
    show "p = ?json"
    proof (rule ccontr)
      assume ne: "p \<noteq> ?json"
      have "p \<notin> ?dst ` set poly_file_list" using ready p by auto
      then have "files w1 p = files w p" using ne copies by (simp add: w1_def)
      then show False using fresh p by auto
    qed
  next
    assume "p = ?json"
    then show "listed_json via_dir p \<and> (files w1 p \<noteq> None \<or> images p \<noteq> None)"
      using listed by (simp add: w1_def)
  qed
  have l: "lists_json_of images w1 via_dir poly_file"
    using listing by (simp add: run1)
  have l1: "distinct (map fst poly_file)"
    and l2: "\<forall>p. p \<in> fst ` set poly_file
               \<longleftrightarrow> listed_json via_dir p \<and> (files w1 p \<noteq> None \<or> images p \<noteq> None)"
    and l3: "\<forall>p d. (p, d) \<in> set poly_file \<longrightarrow> files w1 p = Some (ViaJson d)"
    using l unfolding lists_json_of_def by blast+
  have "\<forall>p. p \<in> fst ` set poly_file \<longleftrightarrow> p = ?json"
    using l2 only by simp
  then have l4: "fst ` set poly_file = {?json}"
    by blast
  obtain d where d: "poly_file = [(?json, d)]"
    using single_listing [OF l1 l4] by blast
  have "(?json, d) \<in> set poly_file"
    by (simp add: d)
  then have "files w1 ?json = Some (ViaJson d)"
    using l3 by blast
  moreover have "files w1 ?json = Some (ViaJson ?doc)"
    by (simp add: w1_def)
  ultimately have "d = ?doc"
    by simp
  then have found: "poly_file = [(?json, ?doc)]"
    using d by simp
  have run2: "round_trip images poly_file_list input_dir via_dir output_dir poly_file w
              = for_each (via_record (disk_images images w1) via_dir output_dir)
                  (map (via_entry images) poly_file_list) w1"
    by (simp add: round_trip_def run1 found via2labelme_def comp_def)
  have on_disk: "disk_images images w1 (?dst pf) \<noteq> None" if "pf \<in> set poly_file_list" for pf
  proof -
    have "?dst pf \<in> ?dst ` set poly_file_list" using that by simp
    then obtain pf' where pf': "pf' \<in> set poly_file_list"
        "foldl (\<lambda>f pf. f(?dst pf \<mapsto> ImageCopy (?src pf))) (files w) poly_file_list (?dst pf)
          = Some (ImageCopy (?src pf'))"
      using copies_lookup [of "?dst pf" ?dst poly_file_list ?src "files w"] by blast
    have "?dst pf \<noteq> ?json" using ready that listed by auto
    then have "files w1 (?dst pf) = Some (ImageCopy (?src pf'))"
      by (simp add: w1_def first(2) pf'(2))
    moreover have "images (?src pf') \<noteq> None" using ready pf'(1) by simp
    ultimately show ?thesis by (simp add: disk_images_def)
  qed
  have "\<exists>w2. for_each (via_record (disk_images images w1) via_dir output_dir)
                (map (via_entry images) poly_file_list) w1 = (Finished, w2)
         \<and> (\<forall>p. p \<notin> (\<lambda>pf. path_join output_dir (lme_ann_name_of (image_name_for pf))) ` set poly_file_list
                \<and> p \<notin> (\<lambda>pf. path_join output_dir (image_name_for pf)) ` set poly_file_list
                \<longrightarrow> files w2 p = files w1 p)
         \<and> (\<forall>pf \<in> set poly_file_list. \<exists>doc.
                files w2 (path_join output_dir (lme_ann_name_of (image_name_for pf)))
                  = Some (LabelmeJson doc)
              \<and> shapes doc = map truncated (shapes (snd pf)))"
  proof (rule via_records_polygons)
    show "\<forall>pf \<in> set poly_file_list.
            (\<forall>sh \<in> set (shapes (snd pf)). shape_type sh = ''polygon'')
          \<and> disk_images images w1 (path_join via_dir (image_name_for pf)) \<noteq> None
          \<and> path_join via_dir (image_name_for pf) \<noteq> path_join output_dir (image_name_for pf)"
      using ready on_disk dirs joined by simp
  qed (rule names, rule apart)
  then show ?thesis
    unfolding run2 by auto
qed

theorem round_trip_preserves_polygons_witness:
  "fst (round_trip
     (\<lambda>p. if p = ''in/a.jpg'' then Some \<lparr>st_size = 7, im_height = 100, im_width = 200\<rparr>
          else if p = ''in/b.png'' then Some \<lparr>st_size = 9, im_height = 50, im_width = 60\<rparr>
          else None)
     [(''in/a.json'',
       \<lparr>shapes = [\<lparr>label = ''cat'', points = [(3 / 2, 2), (3, 9 / 2), (5, 6)], shape_type = ''polygon''\<rparr>],
        imagePath = Some (JString ''a.jpg''), imageWidth = 200, imageHeight = 100\<rparr>),
      (''in/b.json'',
       \<lparr>shapes = [\<lparr>label = ''dog'', points = [(1, 1), (8, 1), (8, 9)], shape_type = ''polygon''\<rparr>],
        imagePath = Some (JString ''b.png''), imageWidth = 60, imageHeight = 50\<rparr>)]
     ''in/'' ''via/'' ''out/''
     [(''via/via_annotations.json'',
       [(''a.jpg7'',
         \<lparr>filename = ''a.jpg'',
          regions = [\<lparr>sa_name = ''polygon'', all_points_x = [1, 3, 5], all_points_y = [2, 4, 6],
                      ra_label = ''cat''\<rparr>],
          via_size = 7\<rparr>),
        (''b.png9'',
         \<lparr>filename = ''b.png'',
          regions = [\<lparr>sa_name = ''polygon'', all_points_x = [1, 8, 8], all_points_y = [1, 1, 9],
                      ra_label = ''dog''\<rparr>],
          via_size = 9\<rparr>)])]
     empty_world) = Finished
   \<and> (\<exists>doc. files (snd (round_trip
     (\<lambda>p. if p = ''in/a.jpg'' then Some \<lparr>st_size = 7, im_height = 100, im_width = 200\<rparr>
          else if p = ''in/b.png'' then Some \<lparr>st_size = 9, im_height = 50, im_width = 60\<rparr>
          else None)
     [(''in/a.json'',
       \<lparr>shapes = [\<lparr>label = ''cat'', points = [(3 / 2, 2), (3, 9 / 2), (5, 6)], shape_type = ''polygon''\<rparr>],
        imagePath = Some (JString ''a.jpg''), imageWidth = 200, imageHeight = 100\<rparr>),
      (''in/b.json'',
       \<lparr>shapes = [\<lparr>label = ''dog'', points = [(1, 1), (8, 1), (8, 9)], shape_type = ''polygon''\<rparr>],
        imagePath = Some (JString ''b.png''), imageWidth = 60, imageHeight = 50\<rparr>)]
     ''in/'' ''via/'' ''out/''
     [(''via/via_annotations.json'',
       [(''a.jpg7'',
         \<lparr>filename = ''a.jpg'',
          regions = [\<lparr>sa_name = ''polygon'', all_points_x = [1, 3, 5], all_points_y = [2, 4, 6],
                      ra_label = ''cat''\<rparr>],
          via_size = 7\<rparr>),
        (''b.png9'',
         \<lparr>filename = ''b.png'',
          regions = [\<lparr>sa_name = ''polygon'', all_points_x = [1, 8, 8], all_points_y = [1, 1, 9],
                      ra_label = ''dog''\<rparr>],
          via_size = 9\<rparr>)])]
     empty_world)) ''out/a.json'' = Some (LabelmeJson doc)
       \<and> shapes doc = [\<lparr>label = ''cat'', points = [(1, 2), (3, 4), (5, 6)], shape_type = ''polygon''\<rparr>])"
proof -
  let ?images = "\<lambda>p. if p = ''in/a.jpg'' then Some \<lparr>st_size = 7, im_height = 100, im_width = 200\<rparr>
          else if p = ''in/b.png'' then Some \<lparr>st_size = 9, im_height = 50, im_width = 60\<rparr>
          else None"
  let ?a = "\<lparr>shapes = [\<lparr>label = ''cat'', points = [(3 / 2, 2), (3, 9 / 2), (5, 6)], shape_type = ''polygon''\<rparr>],
        imagePath = Some (JString ''a.jpg''), imageWidth = 200, imageHeight = 100\<rparr>"
  let ?b = "\<lparr>shapes = [\<lparr>label = ''dog'', points = [(1, 1), (8, 1), (8, 9)], shape_type = ''polygon''\<rparr>],
        imagePath = Some (JString ''b.png''), imageWidth = 60, imageHeight = 50\<rparr>"
  let ?fa = "(''in/a.json'', ?a)"
  let ?fb = "(''in/b.json'', ?b)"
  let ?doc = "[(''a.jpg7'',
         \<lparr>filename = ''a.jpg'',
          regions = [\<lparr>sa_name = ''polygon'', all_points_x = [1, 3, 5], all_points_y = [2, 4, 6],
                      ra_label = ''cat''\<rparr>],
          via_size = 7\<rparr>),
        (''b.png9'',
         \<lparr>filename = ''b.png'',
          regions = [\<lparr>sa_name = ''polygon'', all_points_x = [1, 8, 8], all_points_y = [1, 1, 9],
                      ra_label = ''dog''\<rparr>],
          via_size = 9\<rparr>)]"
  have fmt: "image_format_of ?a = ''.jpg''" "image_format_of ?b = ''.png''"
    by (simp_all add: image_format_of_def detect_image_format_def split_last_def)
  have name: "image_name_for ?fa = ''a.jpg''" "image_name_for ?fb = ''b.png''"
    by (simp_all add: image_name_for_def image_name_of_def fmt split_last_def replace_str.simps)
  have stat: "stat_path_for ?fa = ''in/a.jpg''" "stat_path_for ?fb = ''in/b.png''"
    by (simp_all add: stat_path_for_def fmt replace_str.simps)
  have key: "via_key ?images ?fa = ''a.jpg7''" "via_key ?images ?fb = ''b.png9''"
    by (simp_all add: via_key_def img_size_for_def name stat str_nat.simps digit_char_def)
  have lme: "lme_ann_name_of ''a.jpg'' = ''a.json''" "lme_ann_name_of ''b.png'' = ''b.json''"
    by (simp_all add: lme_ann_name_of_def split_last_def replace_str.simps)
  have fl: "\<lfloor>3 / 2 :: rat\<rfloor> = 1" "\<lfloor>9 / 2 :: rat\<rfloor> = 4"
    by (simp_all add: floor_eq_iff)
  have dirs: "plain_dir ''in/'' \<and> plain_dir ''via/'' \<and> plain_dir ''out/''
              \<and> ''in/'' \<noteq> ''via/'' \<and> ''via/'' \<noteq> ''out/''"
    by (simp add: plain_dir_def plain_name_def)
  have not_listed: "\<not> listed_json ''via/'' ''via/a.jpg''" "\<not> listed_json ''via/'' ''via/b.png''"
      "\<not> listed_json ''via/'' ''in/a.jpg''" "\<not> listed_json ''via/'' ''in/b.png''"
    by (simp_all add: listed_json_def)
  have listed: "listed_json ''via/'' ''via/via_annotations.json''"
    by (simp add: listed_json_def)
  have ready: "\<forall>pf \<in> set [?fa, ?fb].
        (\<forall>sh \<in> set (shapes (snd pf)). shape_type sh = ''polygon'')
      \<and> plain_name (image_name_for pf)
      \<and> \<not> listed_json ''via/'' (path_join ''via/'' (image_name_for pf))
      \<and> ?images (stat_path_for pf) \<noteq> None
      \<and> ?images (path_join ''in/'' (image_name_for pf)) \<noteq> None"
    by (simp add: name stat path_join_def plain_name_def not_listed)
  have fresh: "\<forall>p. listed_json ''via/'' p \<longrightarrow> files empty_world p = None \<and> ?images p = None"
    using not_listed by (auto simp: empty_world_def)
  have run1: "labelme2via ?images [?fa, ?fb] ''in/'' ''via/'' empty_world =
      (Finished,
       \<lparr>files = (\<lambda>p. None)(''via/a.jpg'' \<mapsto> ImageCopy ''in/a.jpg'',
                              ''via/b.png'' \<mapsto> ImageCopy ''in/b.png'',
                              ''via/via_annotations.json'' \<mapsto> ViaJson ?doc),
        printed = []\<rparr>)"
    by (simp add: labelme2via_def via_file_def detect_image_format_def split_last_def
        replace_str.simps image_name_of_def via_region_def py_int_def fl str_nat.simps digit_char_def
        copyfile_def path_join_def empty_world_def Let_def)
  have listing: "lists_json_of ?images
      (snd (labelme2via ?images [?fa, ?fb] ''in/'' ''via/'' empty_world)) ''via/''
      [(''via/via_annotations.json'', ?doc)]"
    unfolding run1 lists_json_of_def using not_listed listed by auto
  have keys: "distinct (map (via_key ?images) [?fa, ?fb])"
    by (simp add: key)
  have names: "distinct (map (\<lambda>pf. path_join ''out/'' (lme_ann_name_of (image_name_for pf))) [?fa, ?fb])"
    by (simp add: name lme path_join_def)
  have apart: "\<forall>pf \<in> set [?fa, ?fb]. \<forall>pf' \<in> set [?fa, ?fb].
        path_join ''out/'' (lme_ann_name_of (image_name_for pf))
        \<noteq> path_join ''out/'' (image_name_for pf')"
    by (simp add: name lme path_join_def)
  note t = round_trip_preserves_polygons [OF dirs ready fresh listing keys names apart]
  have out_a: "path_join ''out/'' (lme_ann_name_of (image_name_for ?fa)) = ''out/a.json''"
    by (simp add: name lme path_join_def)
  have tr: "map truncated (shapes (snd ?fa))
            = [\<lparr>label = ''cat'', points = [(1, 2), (3, 4), (5, 6)], shape_type = ''polygon''\<rparr>]"
    by (simp add: truncated_def py_int_def fl)
  have "?fa \<in> set [?fa, ?fb]" by simp
  with t have "\<exists>doc. files (snd (round_trip ?images [?fa, ?fb] ''in/'' ''via/'' ''out/''
                 [(''via/via_annotations.json'', ?doc)] empty_world))
               (path_join ''out/'' (lme_ann_name_of (image_name_for ?fa))) = Some (LabelmeJson doc)
           \<and> shapes doc = map truncated (shapes (snd ?fa))"
    by blast
  then have "\<exists>doc. files (snd (round_trip ?images [?fa, ?fb] ''in/'' ''via/'' ''out/''
                 [(''via/via_annotations.json'', ?doc)] empty_world))
               ''out/a.json'' = Some (LabelmeJson doc)
           \<and> shapes doc = [\<lparr>label = ''cat'', points = [(1, 2), (3, 4), (5, 6)], shape_type = ''polygon''\<rparr>]"
    by (simp only: out_a tr)
  with t show ?thesis by blast
qed

end
